theory Spec2Isabelle
  imports Main "HOL-Library.Word" "HOL-Library.AList"
begin

section \<open>The DigitalOcean provider of external-dns\<close>

text \<open>
  A shallow embedding of \<^verbatim>\<open>providers/digitalocean/digitalocean.go\<close>. The remote API
  (the godo client) and the rate limiter are outside the file: the API is a parameter of
  every operation, a record of response functions over an arbitrary world \<open>'w\<close>, and the
  operations log what they do (token acquisitions and API calls, with their outcome) in a
  trace, so that the order of effects can be stated.
\<close>

subsection \<open>Data\<close>

text \<open>Go's \<^verbatim>\<open>int\<close> and \<^verbatim>\<open>int64\<close>: 64 bits, \<open>+\<close> wraps.\<close>

type_synonym go_int = "64 word"

text \<open>
  An \<^verbatim>\<open>error\<close> value is modelled by its message. \<open>Panic\<close> is the run-time panic of a
  call through a nil \<^verbatim>\<open>client\<close> or \<^verbatim>\<open>limiter\<close> (a provider that was never initialised).
\<close>

datatype error = Error string | Panic

text \<open>\<^verbatim>\<open>utils.DnsRecord\<close>, with the fields the provider reads and writes.\<close>

record DnsRecord =
  Fqdn :: string
  Records :: "string list"
  Type :: string
  TTL :: go_int

text \<open>The godo types, with the fields the provider uses.\<close>

record Account =
  Email :: string

record Domain =
  dom_Name :: string
  dom_TTL :: go_int

record DomainRecord =
  rec_ID :: go_int
  rec_Type :: string
  rec_Name :: string
  rec_Data :: string

record DomainRecordEditRequest =
  req_Type :: string
  req_Name :: string
  req_Data :: string

record ListOptions =
  Page :: go_int
  PerPage :: go_int

text \<open>
  \<^verbatim>\<open>resp.Links\<close> may be nil; of a non-nil one the provider reads \<^verbatim>\<open>IsLastPage()\<close> and
  \<^verbatim>\<open>CurrentPage()\<close>, which returns a page number or an error.
\<close>

record Links =
  IsLastPage :: bool
  CurrentPage :: "string + go_int"

record Response =
  resp_Links :: "Links option"

record TokenSource =
  AccessToken :: string

text \<open>
  \<^verbatim>\<open>ratelimit.NewBucketWithRate(doqps, 1)\<close>: a bucket of capacity 1. Its rate is a float and
  the time a \<^verbatim>\<open>Wait\<close> blocks is not modelled; \<^verbatim>\<open>Wait\<close> always returns.
\<close>

record Bucket =
  capacity :: go_int

record DigitalOceanProvider =
  client :: "TokenSource option"
  rootDomainName :: string
  p_TTL :: go_int
  limiter :: "Bucket option"

subsection \<open>The remote API and the trace of effects\<close>

text \<open>
  Each API function takes the client's credential, its arguments and the world, and answers
  with an error message or a value, and the next world.
\<close>

record 'w backend =
  account_get :: "TokenSource \<Rightarrow> 'w \<Rightarrow> (string + Account) \<times> 'w"
  domains_get :: "TokenSource \<Rightarrow> string \<Rightarrow> 'w \<Rightarrow> (string + Domain) \<times> 'w"
  domains_records :: "TokenSource \<Rightarrow> string \<Rightarrow> ListOptions option \<Rightarrow> 'w
    \<Rightarrow> (string + DomainRecord list \<times> Response) \<times> 'w"
  domains_create_record :: "TokenSource \<Rightarrow> string \<Rightarrow> DomainRecordEditRequest \<Rightarrow> 'w
    \<Rightarrow> (string + DomainRecord) \<times> 'w"
  domains_delete_record :: "TokenSource \<Rightarrow> string \<Rightarrow> go_int \<Rightarrow> 'w \<Rightarrow> (string + unit) \<times> 'w"

datatype call =
    AccountGet
  | DomainsGet string
  | DomainsRecords string "ListOptions option"
  | DomainsCreateRecord string DomainRecordEditRequest
  | DomainsDeleteRecord string go_int

text \<open>\<open>Call c None\<close>: the call returned no error; \<open>Call c (Some m)\<close>: it failed with message \<open>m\<close>.\<close>

datatype event = Wait go_int | Call call "string option"

record 'w state =
  world :: 'w
  trace :: "event list"

type_synonym ('w, 'a) action = "'w state \<Rightarrow> (error + 'a) \<times> 'w state"

definition log_call :: "call \<Rightarrow> (string + 'a) \<times> 'w \<Rightarrow> 'w state \<Rightarrow> (error + 'a) \<times> 'w state" where
  "log_call c r s =
     (case r of
        (Inl m, w) \<Rightarrow> (Inl (Error m), s\<lparr>world := w, trace := trace s @ [Call c (Some m)]\<rparr>)
      | (Inr a, w) \<Rightarrow> (Inr a, s\<lparr>world := w, trace := trace s @ [Call c None]\<rparr>))"

text \<open>\<^verbatim>\<open>p.limiter.Wait(n)\<close>\<close>

definition limiter_Wait :: "DigitalOceanProvider \<Rightarrow> go_int \<Rightarrow> ('w, unit) action" where
  "limiter_Wait p n s =
     (case limiter p of
        None \<Rightarrow> (Inl Panic, s)
      | Some _ \<Rightarrow> (Inr (), s\<lparr>trace := trace s @ [Wait n]\<rparr>))"

text \<open>\<^verbatim>\<open>p.client.Account.Get()\<close>\<close>

definition Account_Get :: "'w backend \<Rightarrow> DigitalOceanProvider \<Rightarrow> ('w, Account) action" where
  "Account_Get b p s =
     (case client p of
        None \<Rightarrow> (Inl Panic, s)
      | Some c \<Rightarrow> log_call AccountGet (account_get b c (world s)) s)"

text \<open>\<^verbatim>\<open>p.client.Domains.Get(name)\<close>\<close>

definition Domains_Get :: "'w backend \<Rightarrow> DigitalOceanProvider \<Rightarrow> string \<Rightarrow> ('w, Domain) action" where
  "Domains_Get b p name s =
     (case client p of
        None \<Rightarrow> (Inl Panic, s)
      | Some c \<Rightarrow> log_call (DomainsGet name) (domains_get b c name (world s)) s)"

text \<open>\<^verbatim>\<open>p.client.Domains.Records(name, opt)\<close>\<close>

definition Domains_Records :: "'w backend \<Rightarrow> DigitalOceanProvider \<Rightarrow> string \<Rightarrow> ListOptions option
    \<Rightarrow> ('w, DomainRecord list \<times> Response) action" where
  "Domains_Records b p name opt s =
     (case client p of
        None \<Rightarrow> (Inl Panic, s)
      | Some c \<Rightarrow> log_call (DomainsRecords name opt) (domains_records b c name opt (world s)) s)"

text \<open>\<^verbatim>\<open>p.client.Domains.CreateRecord(name, req)\<close>\<close>

definition Domains_CreateRecord :: "'w backend \<Rightarrow> DigitalOceanProvider \<Rightarrow> string
    \<Rightarrow> DomainRecordEditRequest \<Rightarrow> ('w, DomainRecord) action" where
  "Domains_CreateRecord b p name req s =
     (case client p of
        None \<Rightarrow> (Inl Panic, s)
      | Some c \<Rightarrow>
          log_call (DomainsCreateRecord name req) (domains_create_record b c name req (world s)) s)"

text \<open>\<^verbatim>\<open>p.client.Domains.DeleteRecord(name, id)\<close>\<close>

definition Domains_DeleteRecord :: "'w backend \<Rightarrow> DigitalOceanProvider \<Rightarrow> string \<Rightarrow> go_int
    \<Rightarrow> ('w, unit) action" where
  "Domains_DeleteRecord b p name i s =
     (case client p of
        None \<Rightarrow> (Inl Panic, s)
      | Some c \<Rightarrow>
          log_call (DomainsDeleteRecord name i) (domains_delete_record b c name i (world s)) s)"

subsection \<open>The helpers of package utils\<close>

text \<open>
  Modelled from the spec: \<^verbatim>\<open>utils.UnFqdn\<close> is not in the file; the spec has Init normalise
  the domain name by stripping a trailing dot.
\<close>

definition UnFqdn :: "string \<Rightarrow> string" where
  "UnFqdn name = (if name \<noteq> [] \<and> last name = CHR ''.'' then butlast name else name)"

subsection \<open>The provider\<close>

definition GetName :: string where
  "GetName = ''DigitalOcean''"

text \<open>
  \<^verbatim>\<open>fmt.Errorf("%s API call has failed: %v", p.GetName(), err)\<close>. A panic is not an error
  value: it is not caught, so it passes unchanged.
\<close>

fun api_failed :: "error \<Rightarrow> error" where
  "api_failed (Error m) = Error (GetName @ '' API call has failed: '' @ m)"
| "api_failed Panic = Panic"

text \<open>\<^verbatim>\<open>os.Getenv\<close>: the empty string when the variable is not set.\<close>

definition Getenv :: "(string \<rightharpoonup> string) \<Rightarrow> string \<Rightarrow> string" where
  "Getenv env k = (case env k of None \<Rightarrow> [] | Some v \<Rightarrow> v)"

text \<open>
  \<^verbatim>\<open>Init\<close> changes the provider, so it returns the provider too. The client, the limiter and
  the root domain name are stored before the first call, and stay stored when a call fails.
\<close>

definition Init :: "'w backend \<Rightarrow> (string \<rightharpoonup> string) \<Rightarrow> string \<Rightarrow> DigitalOceanProvider
    \<Rightarrow> 'w state \<Rightarrow> (error + unit) \<times> DigitalOceanProvider \<times> 'w state" where
  "Init b env root p s =
     (let pat = Getenv env ''DO_PAT'' in
      if length pat = 0 then (Inl (Error ''DO_PAT is not set''), p, s)
      else
        let p1 = p\<lparr>client := Some \<lparr>AccessToken = pat\<rparr>,
                   limiter := Some \<lparr>capacity = 1\<rparr>,
                   rootDomainName := UnFqdn root\<rparr>
        in case limiter_Wait p1 1 s of
             (Inl e, s1) \<Rightarrow> (Inl e, p1, s1)
           | (Inr _, s1) \<Rightarrow>
         (case Account_Get b p1 s1 of
             (Inl e, s2) \<Rightarrow> (Inl e, p1, s2)
           | (Inr acct, s2) \<Rightarrow>
         (case limiter_Wait p1 1 s2 of
             (Inl e, s3) \<Rightarrow> (Inl e, p1, s3)
           | (Inr _, s3) \<Rightarrow>
         (case Domains_Get b p1 (rootDomainName p1) s3 of
             (Inl e, s4) \<Rightarrow> (Inl e, p1, s4)
           | (Inr domains, s4) \<Rightarrow> (Inr (), p1\<lparr>p_TTL := dom_TTL domains\<rparr>, s4)))))"

definition HealthCheck :: "'w backend \<Rightarrow> DigitalOceanProvider \<Rightarrow> ('w, unit) action" where
  "HealthCheck b p s =
     (case limiter_Wait p 1 s of
        (Inl e, s1) \<Rightarrow> (Inl e, s1)
      | (Inr _, s1) \<Rightarrow>
     (case Domains_Get b p (rootDomainName p) s1 of
        (Inl e, s2) \<Rightarrow> (Inl e, s2)
      | (Inr _, s2) \<Rightarrow> (Inr (), s2)))"

text \<open>The loop of \<^verbatim>\<open>AddRecord\<close> over \<^verbatim>\<open>record.Records\<close>.\<close>

fun AddRecord_loop :: "'w backend \<Rightarrow> DigitalOceanProvider \<Rightarrow> DnsRecord \<Rightarrow> string list
    \<Rightarrow> ('w, unit) action" where
  "AddRecord_loop b p record [] s = (Inr (), s)"
| "AddRecord_loop b p record (r # rs) s =
     (let createRequest = \<lparr>req_Type = Type record, req_Name = Fqdn record, req_Data = r\<rparr>
      in case limiter_Wait p 1 s of
           (Inl e, s1) \<Rightarrow> (Inl e, s1)
         | (Inr _, s1) \<Rightarrow>
       (case Domains_CreateRecord b p (rootDomainName p) createRequest s1 of
           (Inl e, s2) \<Rightarrow> (Inl (api_failed e), s2)
         | (Inr _, s2) \<Rightarrow> AddRecord_loop b p record rs s2))"

definition AddRecord :: "'w backend \<Rightarrow> DigitalOceanProvider \<Rightarrow> DnsRecord \<Rightarrow> ('w, unit) action" where
  "AddRecord b p record s = AddRecord_loop b p record (Records record) s"

text \<open>
  The loop of \<^verbatim>\<open>RemoveRecord\<close> over the listed rows. The \<^verbatim>\<open>err\<close> of the delete call is a
  new variable of the loop body; the final \<^verbatim>\<open>return err\<close> returns the \<^verbatim>\<open>err\<close> of the
  listing, which is nil there.
\<close>

fun RemoveRecord_loop :: "'w backend \<Rightarrow> DigitalOceanProvider \<Rightarrow> DnsRecord \<Rightarrow> DomainRecord list
    \<Rightarrow> ('w, unit) action" where
  "RemoveRecord_loop b p record [] s = (Inr (), s)"
| "RemoveRecord_loop b p record (rec # records) s =
     (if rec_Name rec = Fqdn record \<and> rec_Type rec = Type record then
        (case limiter_Wait p 1 s of
           (Inl e, s1) \<Rightarrow> (Inl e, s1)
         | (Inr _, s1) \<Rightarrow>
        (case Domains_DeleteRecord b p (rootDomainName p) (rec_ID rec) s1 of
           (Inl e, s2) \<Rightarrow> (Inl (api_failed e), s2)
         | (Inr _, s2) \<Rightarrow> RemoveRecord_loop b p record records s2))
      else RemoveRecord_loop b p record records s)"

definition RemoveRecord :: "'w backend \<Rightarrow> DigitalOceanProvider \<Rightarrow> DnsRecord \<Rightarrow> ('w, unit) action" where
  "RemoveRecord b p record s =
     (case limiter_Wait p 1 s of
        (Inl e, s1) \<Rightarrow> (Inl e, s1)
      | (Inr _, s1) \<Rightarrow>
     (case Domains_Records b p (rootDomainName p) None s1 of
        (Inl e, s2) \<Rightarrow> (Inl e, s2)
      | (Inr (records, _), s2) \<Rightarrow> RemoveRecord_loop b p record records s2))"

definition UpdateRecord :: "'w backend \<Rightarrow> DigitalOceanProvider \<Rightarrow> DnsRecord \<Rightarrow> ('w, unit) action" where
  "UpdateRecord b p record s =
     (case RemoveRecord b p record s of
        (Inl err, s1) \<Rightarrow> (Inl err, s1)
      | (Inr _, s1) \<Rightarrow> AddRecord b p record s1)"

subsection \<open>Listing and aggregation\<close>

text \<open>
  \<^verbatim>\<open>recordMap\<close>, a Go \<^verbatim>\<open>map[string]map[string][]string\<close>, is an association list with
  one entry per key: \<open>map_of\<close> reads it and \<open>AList.update\<close> writes it. Go leaves the
  order in which \<^verbatim>\<open>range\<close> visits a map open; the model visits the keys in the order of
  their first insertion, and the theorems below read the result as a set.
\<close>

type_synonym recordMap = "(string \<times> (string \<times> string list) list) list"

text \<open>
  The name a row gets in the loop body of \<^verbatim>\<open>GetRecords\<close>:
  \<^verbatim>\<open>strings.Join([]string{r.Name, p.rootDomainName}, ".")\<close>, or the root domain for \<^verbatim>\<open>"@"\<close>.
\<close>

definition joined_name :: "string \<Rightarrow> DomainRecord \<Rightarrow> string" where
  "joined_name root r = (if rec_Name r = ''@'' then root else rec_Name r @ ''.'' @ root)"

text \<open>
  The body of the loop over the rows of one page. \<^verbatim>\<open>utils.Fqdn\<close> is not in the file and
  the provider is modelled for any such helper, the parameter \<open>fq\<close>.
\<close>

definition add_row :: "(string \<Rightarrow> string) \<Rightarrow> string \<Rightarrow> recordMap \<Rightarrow> DomainRecord \<Rightarrow> recordMap" where
  "add_row fq root recordMap r =
     (let fqdn = fq (joined_name root r) in
      case map_of recordMap fqdn of
        Some recordSet \<Rightarrow>
          (case map_of recordSet (rec_Type r) of
             Some recordSlice \<Rightarrow>
               AList.update fqdn (AList.update (rec_Type r) (recordSlice @ [rec_Data r]) recordSet)
                 recordMap
           | None \<Rightarrow>
               AList.update fqdn (AList.update (rec_Type r) [rec_Data r] recordSet) recordMap)
      | None \<Rightarrow> AList.update fqdn (AList.update (rec_Type r) [rec_Data r] []) recordMap)"

text \<open>
  The paging loop, with fuel: \<open>None\<close> when the API has not signalled the last page within
  \<open>n\<close> requests (the Go loop has no bound of its own).
\<close>

fun GetRecords_loop :: "nat \<Rightarrow> 'w backend \<Rightarrow> (string \<Rightarrow> string) \<Rightarrow> DigitalOceanProvider
    \<Rightarrow> ListOptions \<Rightarrow> recordMap \<Rightarrow> 'w state \<Rightarrow> ((error + recordMap) \<times> 'w state) option" where
  "GetRecords_loop 0 b fq p opt recordMap s = None"
| "GetRecords_loop (Suc n) b fq p opt recordMap s =
     (case limiter_Wait p 1 s of
        (Inl e, s1) \<Rightarrow> Some (Inl e, s1)
      | (Inr _, s1) \<Rightarrow>
     (case Domains_Records b p (rootDomainName p) (Some opt) s1 of
        (Inl e, s2) \<Rightarrow> Some (Inl (api_failed e), s2)
      | (Inr (drecords, resp), s2) \<Rightarrow>
          (let recordMap' = foldl (add_row fq (rootDomainName p)) recordMap drecords in
           case resp_Links resp of
             None \<Rightarrow> Some (Inr recordMap', s2)
           | Some links \<Rightarrow>
               if IsLastPage links then Some (Inr recordMap', s2)
               else (case CurrentPage links of
                       Inl e \<Rightarrow> Some (Inl (api_failed (Error e)), s2)
                     | Inr page \<Rightarrow>
                         GetRecords_loop n b fq p (opt\<lparr>Page := page + 1\<rparr>) recordMap' s2))))"

text \<open>The final loops over \<^verbatim>\<open>recordMap\<close>, building one \<^verbatim>\<open>DnsRecord\<close> per name and type.\<close>

definition to_records :: "go_int \<Rightarrow> recordMap \<Rightarrow> DnsRecord list" where
  "to_records ttl recordMap =
     concat (map (\<lambda>(fqdn, recordSet).
       map (\<lambda>(recordType, recordSlice).
         \<lparr>Fqdn = fqdn, Records = recordSlice, Type = recordType, TTL = ttl\<rparr>) recordSet) recordMap)"

definition GetRecords :: "nat \<Rightarrow> 'w backend \<Rightarrow> (string \<Rightarrow> string) \<Rightarrow> DigitalOceanProvider
    \<Rightarrow> 'w state \<Rightarrow> ((error + DnsRecord list) \<times> 'w state) option" where
  "GetRecords n b fq p s =
     (case GetRecords_loop n b fq p \<lparr>Page = 0, PerPage = 0\<rparr> [] s of
        None \<Rightarrow> None
      | Some (Inl e, s') \<Rightarrow> Some (Inl e, s')
      | Some (Inr recordMap, s') \<Rightarrow> Some (Inr (to_records (p_TTL p) recordMap), s'))"

text \<open>
  The paging loop without the aggregation: the rows of all pages it fetches, in the order
  they arrive. It serves to say which rows a run of \<^verbatim>\<open>GetRecords\<close> has processed.
\<close>

fun fetch_pages :: "nat \<Rightarrow> 'w backend \<Rightarrow> DigitalOceanProvider \<Rightarrow> ListOptions \<Rightarrow> 'w state
    \<Rightarrow> ((error + DomainRecord list) \<times> 'w state) option" where
  "fetch_pages 0 b p opt s = None"
| "fetch_pages (Suc n) b p opt s =
     (case limiter_Wait p 1 s of
        (Inl e, s1) \<Rightarrow> Some (Inl e, s1)
      | (Inr _, s1) \<Rightarrow>
     (case Domains_Records b p (rootDomainName p) (Some opt) s1 of
        (Inl e, s2) \<Rightarrow> Some (Inl (api_failed e), s2)
      | (Inr (drecords, resp), s2) \<Rightarrow>
          (case resp_Links resp of
             None \<Rightarrow> Some (Inr drecords, s2)
           | Some links \<Rightarrow>
               if IsLastPage links then Some (Inr drecords, s2)
               else (case CurrentPage links of
                       Inl e \<Rightarrow> Some (Inl (api_failed (Error e)), s2)
                     | Inr page \<Rightarrow>
                         (case fetch_pages n b p (opt\<lparr>Page := page + 1\<rparr>) s2 of
                            None \<Rightarrow> None
                          | Some (Inl e, s3) \<Rightarrow> Some (Inl e, s3)
                          | Some (Inr rows, s3) \<Rightarrow> Some (Inr (drecords @ rows), s3))))))"

subsection \<open>Sequences of operations\<close>

datatype op =
    OpInit string
  | OpHealthCheck
  | OpGetRecords
  | OpAddRecord DnsRecord
  | OpUpdateRecord DnsRecord
  | OpRemoveRecord DnsRecord

datatype retval = Done | Listed "DnsRecord list"

fun as_done :: "(error + unit) \<times> 'w state \<Rightarrow> DigitalOceanProvider
    \<Rightarrow> ((error + retval) \<times> DigitalOceanProvider \<times> 'w state) option" where
  "as_done (Inl e, s) p = Some (Inl e, p, s)"
| "as_done (Inr _, s) p = Some (Inr Done, p, s)"

text \<open>One call of the provider contract, made with fuel \<open>n\<close> for the paging loop.\<close>

fun exec_op :: "nat \<Rightarrow> 'w backend \<Rightarrow> (string \<Rightarrow> string) \<Rightarrow> (string \<rightharpoonup> string) \<Rightarrow> op
    \<Rightarrow> DigitalOceanProvider \<Rightarrow> 'w state
    \<Rightarrow> ((error + retval) \<times> DigitalOceanProvider \<times> 'w state) option" where
  "exec_op n b fq env (OpInit root) p s =
     (case Init b env root p s of
        (Inl e, p', s') \<Rightarrow> Some (Inl e, p', s')
      | (Inr _, p', s') \<Rightarrow> Some (Inr Done, p', s'))"
| "exec_op n b fq env OpHealthCheck p s = as_done (HealthCheck b p s) p"
| "exec_op n b fq env OpGetRecords p s =
     (case GetRecords n b fq p s of
        None \<Rightarrow> None
      | Some (Inl e, s') \<Rightarrow> Some (Inl e, p, s')
      | Some (Inr rs, s') \<Rightarrow> Some (Inr (Listed rs), p, s'))"
| "exec_op n b fq env (OpAddRecord r) p s = as_done (AddRecord b p r s) p"
| "exec_op n b fq env (OpUpdateRecord r) p s = as_done (UpdateRecord b p r s) p"
| "exec_op n b fq env (OpRemoveRecord r) p s = as_done (RemoveRecord b p r s) p"

text \<open>A sequence of calls, whatever each returns; \<open>None\<close> when one of them runs out of fuel.\<close>

fun run_ops :: "nat \<Rightarrow> 'w backend \<Rightarrow> (string \<Rightarrow> string) \<Rightarrow> (string \<rightharpoonup> string) \<Rightarrow> op list
    \<Rightarrow> DigitalOceanProvider \<Rightarrow> 'w state \<Rightarrow> (DigitalOceanProvider \<times> 'w state) option" where
  "run_ops n b fq env [] p s = Some (p, s)"
| "run_ops n b fq env (x # xs) p s =
     (case exec_op n b fq env x p s of
        None \<Rightarrow> None
      | Some (_, p', s') \<Rightarrow> run_ops n b fq env xs p' s')"

text \<open>
  Every API call of a trace comes right after the acquisition of exactly one token.
\<close>

fun gated :: "event list \<Rightarrow> bool" where
  "gated [] = True"
| "gated (Call c r # tr) = False"
| "gated [Wait n] = True"
| "gated (Wait n # Wait m # tr) = gated (Wait m # tr)"
| "gated (Wait n # Call c r # tr) = (n = 1 \<and> gated tr)"

subsection \<open>Reading a trace\<close>

text \<open>The error of a result, if it is one.\<close>

fun err_of :: "error + 'a \<Rightarrow> error option" where
  "err_of (Inl e) = Some e"
| "err_of (Inr _) = None"

text \<open>
  What the provider returns when the call \<open>c\<close> fails with message \<open>m\<close>: the error itself
  after an account lookup, a domain lookup and the listing of \<^verbatim>\<open>RemoveRecord\<close> (the one
  made without options), the error wrapped by \<open>api_failed\<close> after a create, a delete and a
  page listing of \<^verbatim>\<open>GetRecords\<close>.
\<close>

fun returned_error :: "call \<Rightarrow> string \<Rightarrow> error" where
  "returned_error AccountGet m = Error m"
| "returned_error (DomainsGet name) m = Error m"
| "returned_error (DomainsRecords name None) m = Error m"
| "returned_error (DomainsRecords name (Some opt)) m = api_failed (Error m)"
| "returned_error (DomainsCreateRecord name req) m = api_failed (Error m)"
| "returned_error (DomainsDeleteRecord name i) m = api_failed (Error m)"

text \<open>
  The events of one operation that returns \<open>r\<close>: calls that succeed, each after one token,
  and then nothing more, or a token and a panic, or a token and a call that fails, whose
  error the operation returns.
\<close>

fun well_run :: "event list \<Rightarrow> error option \<Rightarrow> bool" where
  "well_run [] r = True"
| "well_run [Wait n] r = (n = 1 \<and> r = Some Panic)"
| "well_run (Wait n # Call c None # tr) r = (n = 1 \<and> well_run tr r)"
| "well_run [Wait n, Call c (Some m)] r = (n = 1 \<and> r = Some (returned_error c m))"
| "well_run tr r = False"

text \<open>The calls of a trace that failed, and the create requests it made.\<close>

fun failures :: "event list \<Rightarrow> (call \<times> string) list" where
  "failures [] = []"
| "failures (Call c (Some m) # tr) = (c, m) # failures tr"
| "failures (e # tr) = failures tr"

fun creates_of :: "event list \<Rightarrow> DomainRecordEditRequest list" where
  "creates_of [] = []"
| "creates_of (Call (DomainsCreateRecord name req) r # tr) = req # creates_of tr"
| "creates_of (e # tr) = creates_of tr"

subsection \<open>What a listing aggregates to\<close>

text \<open>
  The values of the record of name \<open>fqdn\<close> and type \<open>t\<close>: the data of the rows with that
  name (once joined and passed through \<open>fq\<close>) and that type, in the order of the rows.
\<close>

definition values_of :: "(string \<Rightarrow> string) \<Rightarrow> string \<Rightarrow> DomainRecord list \<Rightarrow> string \<Rightarrow> string
    \<Rightarrow> string list" where
  "values_of fq root rows fqdn t =
     map rec_Data (filter (\<lambda>r. fq (joined_name root r) = fqdn \<and> rec_Type r = t) rows)"

text \<open>\<^verbatim>\<open>recordMap[fqdn][t]\<close>, when both keys are present.\<close>

definition entry :: "recordMap \<Rightarrow> string \<Rightarrow> string \<Rightarrow> string list option" where
  "entry m fqdn t = (case map_of m fqdn of None \<Rightarrow> None | Some recordSet \<Rightarrow> map_of recordSet t)"

text \<open>
  The invariant of the aggregation: \<open>m\<close> has one entry per key at both levels, and holds
  under each name and type the values of the rows seen so far.
\<close>

definition grouped :: "(string \<Rightarrow> string) \<Rightarrow> string \<Rightarrow> recordMap \<Rightarrow> DomainRecord list \<Rightarrow> bool" where
  "grouped fq root m rows \<longleftrightarrow>
     distinct (map fst m)
     \<and> (\<forall>k rs. map_of m k = Some rs \<longrightarrow> distinct (map fst rs))
     \<and> (\<forall>k t. entry m k t =
          (if values_of fq root rows k t = [] then None else Some (values_of fq root rows k t)))"

text \<open>
  A response that ends the paging loop (\<^verbatim>\<open>resp.Links == nil || resp.Links.IsLastPage()\<close>),
  and one that does not and reports the current page \<open>k\<close>.
\<close>

definition is_last :: "Response \<Rightarrow> bool" where
  "is_last resp = (case resp_Links resp of None \<Rightarrow> True | Some links \<Rightarrow> IsLastPage links)"

definition more_pages :: "go_int \<Rightarrow> Response" where
  "more_pages k = \<lparr>resp_Links = Some \<lparr>IsLastPage = False, CurrentPage = Inr k\<rparr>\<rparr>"

subsection \<open>An API in memory, for concrete runs\<close>

text \<open>
  A small remote API to run the provider on: the rows of one domain, listed
  \<open>m_per_page\<close> rows a page, with deletions and creations that can be made to fail.
  A listing without options returns the first page.
\<close>

record mock =
  m_account :: "Account option"
  m_domain :: "Domain option"
  m_rows :: "DomainRecord list"
  m_per_page :: nat
  m_fail_delete :: "go_int list"
  m_fail_create :: "string list"
  m_next_id :: go_int

definition mock_page :: "ListOptions option \<Rightarrow> nat" where
  "mock_page opt = (case opt of None \<Rightarrow> 1 | Some l \<Rightarrow> if Page l = 0 then 1 else unat (Page l))"

definition mock_records :: "TokenSource \<Rightarrow> string \<Rightarrow> ListOptions option \<Rightarrow> mock
    \<Rightarrow> (string + DomainRecord list \<times> Response) \<times> mock" where
  "mock_records c name opt w =
     (let k = mock_page opt;
          rows = take (m_per_page w) (drop ((k - 1) * m_per_page w) (m_rows w));
          links = \<lparr>IsLastPage = (length (m_rows w) \<le> k * m_per_page w),
                   CurrentPage = Inr (of_nat k)\<rparr>
      in (Inr (rows, \<lparr>resp_Links = Some links\<rparr>), w))"

definition mock_create :: "TokenSource \<Rightarrow> string \<Rightarrow> DomainRecordEditRequest \<Rightarrow> mock
    \<Rightarrow> (string + DomainRecord) \<times> mock" where
  "mock_create c name req w =
     (if req_Data req \<in> set (m_fail_create w) then (Inl ''create refused'', w)
      else
        let row = \<lparr>rec_ID = m_next_id w, rec_Type = req_Type req, rec_Name = req_Name req,
                   rec_Data = req_Data req\<rparr>
        in (Inr row, w\<lparr>m_rows := m_rows w @ [row], m_next_id := m_next_id w + 1\<rparr>))"

definition mock_delete :: "TokenSource \<Rightarrow> string \<Rightarrow> go_int \<Rightarrow> mock \<Rightarrow> (string + unit) \<times> mock" where
  "mock_delete c name i w =
     (if i \<in> set (m_fail_delete w) then (Inl ''delete refused'', w)
      else (Inr (), w\<lparr>m_rows := filter (\<lambda>r. rec_ID r \<noteq> i) (m_rows w)\<rparr>))"

definition mock_backend :: "mock backend" where
  "mock_backend =
     \<lparr>account_get = (\<lambda>c w. (case m_account w of None \<Rightarrow> Inl ''unauthorized'' | Some a \<Rightarrow> Inr a, w)),
      domains_get = (\<lambda>c name w.
        (case m_domain w of
           None \<Rightarrow> Inl ''not found''
         | Some d \<Rightarrow> if dom_Name d = name then Inr d else Inl ''not found'', w)),
      domains_records = mock_records,
      domains_create_record = mock_create,
      domains_delete_record = mock_delete\<rparr>"

text \<open>
  \<^verbatim>\<open>utils.Fqdn\<close> is not in the file, and the spec says nothing of it. The concrete runs use
  for \<open>fq\<close> the helper its name stands for in DNS code: a fully-qualified name ends with a
  dot, the dot that \<^verbatim>\<open>UnFqdn\<close> strips.
\<close>

definition Fqdn_dot :: "string \<Rightarrow> string" where
  "Fqdn_dot name = (if name \<noteq> [] \<and> last name = CHR ''.'' then name else name @ ''.'')"

text \<open>A provider as a successful \<^verbatim>\<open>Init\<close> leaves it, and a world to start from.\<close>

definition ready :: DigitalOceanProvider where
  "ready = \<lparr>client = Some \<lparr>AccessToken = ''token''\<rparr>, rootDomainName = ''example.com'',
            p_TTL = 1800, limiter = Some \<lparr>capacity = 1\<rparr>\<rparr>"

text \<open>The provider that \<^verbatim>\<open>init()\<close> registers, \<^verbatim>\<open>&DigitalOceanProvider{}\<close>: every field is zero.\<close>

definition registered :: DigitalOceanProvider where
  "registered = \<lparr>client = None, rootDomainName = [], p_TTL = 0, limiter = None\<rparr>"

definition mock0 :: mock where
  "mock0 = \<lparr>m_account = Some \<lparr>Email = ''ops@example.com''\<rparr>,
            m_domain = Some \<lparr>dom_Name = ''example.com'', dom_TTL = 1800\<rparr>,
            m_rows = [], m_per_page = 2, m_fail_delete = [], m_fail_create = [],
            m_next_id = 1\<rparr>"

definition row :: "go_int \<Rightarrow> string \<Rightarrow> string \<Rightarrow> string \<Rightarrow> DomainRecord" where
  "row i t n d = \<lparr>rec_ID = i, rec_Type = t, rec_Name = n, rec_Data = d\<rparr>"

definition start :: "mock \<Rightarrow> mock state" where
  "start w = \<lparr>world = w, trace = []\<rparr>"

section \<open>Properties\<close>

lemmas prim_defs = log_call_def limiter_Wait_def Account_Get_def Domains_Get_def
  Domains_Records_def Domains_CreateRecord_def Domains_DeleteRecord_def

lemmas mock_defs = mock_backend_def mock_records_def mock_create_def mock_delete_def
  mock_page_def ready_def registered_def mock0_def row_def start_def Fqdn_dot_def

subsection \<open>What the operations leave in the trace\<close>

lemma limiter_WaitE:
  assumes "limiter_Wait p n s = (res, s')"
  obtains "res = Inl Panic" "s' = s"
        | "res = Inr ()" "trace s' = trace s @ [Wait n]" "world s' = world s"
  using assms by (auto simp: limiter_Wait_def split: option.splits)

lemma log_call_effect:
  "log_call c r s = (res, s') \<Longrightarrow>
     (\<exists>m. res = Inl (Error m) \<and> trace s' = trace s @ [Call c (Some m)])
   \<or> (\<exists>a. res = Inr a \<and> trace s' = trace s @ [Call c None])"
  by (auto simp: log_call_def split: prod.splits sum.splits)

lemma Account_GetE:
  assumes "Account_Get b p s = (res, s')"
  obtains "res = Inl Panic" "s' = s"
    | m where "res = Inl (Error m)" "trace s' = trace s @ [Call AccountGet (Some m)]"
    | a where "res = Inr a" "trace s' = trace s @ [Call AccountGet None]"
  using assms by (auto simp: Account_Get_def split: option.splits dest!: log_call_effect)

lemma Domains_GetE:
  assumes "Domains_Get b p name s = (res, s')"
  obtains "res = Inl Panic" "s' = s"
    | m where "res = Inl (Error m)" "trace s' = trace s @ [Call (DomainsGet name) (Some m)]"
    | a where "res = Inr a" "trace s' = trace s @ [Call (DomainsGet name) None]"
  using assms by (auto simp: Domains_Get_def split: option.splits dest!: log_call_effect)

lemma Domains_RecordsE:
  assumes "Domains_Records b p name opt s = (res, s')"
  obtains "res = Inl Panic" "s' = s"
    | m where "res = Inl (Error m)" "trace s' = trace s @ [Call (DomainsRecords name opt) (Some m)]"
    | a where "res = Inr a" "trace s' = trace s @ [Call (DomainsRecords name opt) None]"
  using assms by (auto simp: Domains_Records_def split: option.splits dest!: log_call_effect)

lemma Domains_CreateRecordE:
  assumes "Domains_CreateRecord b p name req s = (res, s')"
  obtains "res = Inl Panic" "s' = s"
    | m where "res = Inl (Error m)" "trace s' = trace s @ [Call (DomainsCreateRecord name req) (Some m)]"
    | a where "res = Inr a" "trace s' = trace s @ [Call (DomainsCreateRecord name req) None]"
  using assms by (auto simp: Domains_CreateRecord_def split: option.splits dest!: log_call_effect)

lemma Domains_DeleteRecordE:
  assumes "Domains_DeleteRecord b p name i s = (res, s')"
  obtains "res = Inl Panic" "s' = s"
    | m where "res = Inl (Error m)" "trace s' = trace s @ [Call (DomainsDeleteRecord name i) (Some m)]"
    | a where "res = Inr a" "trace s' = trace s @ [Call (DomainsDeleteRecord name i) None]"
  using assms by (auto simp: Domains_DeleteRecord_def split: option.splits dest!: log_call_effect)

lemmas prim_elims = limiter_WaitE Account_GetE Domains_GetE Domains_RecordsE
  Domains_CreateRecordE Domains_DeleteRecordE

lemma well_run_append:
  "well_run a None \<Longrightarrow> well_run b r \<Longrightarrow> well_run (a @ b) r"
  by (induction a "None :: error option" rule: well_run.induct) auto

lemma HealthCheck_run:
  "HealthCheck b p s = (res, s') \<Longrightarrow> \<exists>ext. trace s' = trace s @ ext \<and> well_run ext (err_of res)"
  by (auto simp: HealthCheck_def split: prod.splits sum.splits elim!: prim_elims)

lemma Init_run:
  "Init b env root p s = (res, p', s') \<Longrightarrow> \<exists>ext. trace s' = trace s @ ext \<and> well_run ext (err_of res)"
  by (auto simp: Init_def Let_def split: prod.splits sum.splits if_splits elim!: prim_elims)

lemma AddRecord_loop_run:
  "AddRecord_loop b p r vs s = (res, s') \<Longrightarrow> \<exists>ext. trace s' = trace s @ ext \<and> well_run ext (err_of res)"
proof (induction vs arbitrary: s)
  case Nil
  then show ?case by simp
next
  case (Cons v vs)
  from Cons.prems show ?case
    by (auto simp: Let_def split: prod.splits sum.splits elim!: prim_elims dest!: Cons.IH)
qed


lemma RemoveRecord_loop_run:
  "RemoveRecord_loop b p r rows s = (res, s') \<Longrightarrow>
   \<exists>ext. trace s' = trace s @ ext \<and> well_run ext (err_of res)"
proof (induction rows arbitrary: s)
  case Nil
  then show ?case by simp
next
  case (Cons x rows)
  from Cons.prems show ?case
    by (auto split: prod.splits sum.splits if_splits elim!: prim_elims dest!: Cons.IH)
qed

lemma RemoveRecord_run:
  "RemoveRecord b p r s = (res, s') \<Longrightarrow>
   \<exists>ext. trace s' = trace s @ ext \<and> well_run ext (err_of res)"
  by (auto simp: RemoveRecord_def split: prod.splits sum.splits elim!: prim_elims
      dest!: RemoveRecord_loop_run)

lemma AddRecord_run:
  "AddRecord b p r s = (res, s') \<Longrightarrow>
   \<exists>ext. trace s' = trace s @ ext \<and> well_run ext (err_of res)"
  by (simp add: AddRecord_def AddRecord_loop_run)

lemma UpdateRecord_run:
  assumes "UpdateRecord b p r s = (res, s')"
  shows "\<exists>ext. trace s' = trace s @ ext \<and> well_run ext (err_of res)"
proof (cases "RemoveRecord b p r s")
  case (Pair res1 s1)
  show ?thesis
  proof (cases res1)
    case (Inl e)
    with Pair assms have "RemoveRecord b p r s = (res, s')"
      by (simp add: UpdateRecord_def)
    then show ?thesis by (rule RemoveRecord_run)
  next
    case (Inr u)
    with Pair assms have add: "AddRecord b p r s1 = (res, s')"
      by (simp add: UpdateRecord_def)
    from Pair Inr obtain ext1 where e1: "trace s1 = trace s @ ext1" "well_run ext1 None"
      using RemoveRecord_run [of b p r s res1 s1] by auto
    from add obtain ext2 where e2: "trace s' = trace s1 @ ext2" "well_run ext2 (err_of res)"
      using AddRecord_run by blast
    from e1 e2 show ?thesis
      by (auto intro: well_run_append)
  qed
qed

lemma GetRecords_loop_run:
  "GetRecords_loop n b fq p opt m s = Some (res, s') \<Longrightarrow>
   \<exists>ext. trace s' = trace s @ ext \<and> well_run ext (err_of res)"
proof (induction n arbitrary: opt m s)
  case 0
  then show ?case by simp
next
  case (Suc n)
  from Suc.prems show ?case
    by (auto simp: Let_def split: prod.splits sum.splits option.splits if_splits
        elim!: prim_elims dest!: Suc.IH)
qed

lemma GetRecords_run:
  "GetRecords n b fq p s = Some (res, s') \<Longrightarrow>
   \<exists>ext. trace s' = trace s @ ext \<and> well_run ext (err_of res)"
  by (auto simp: GetRecords_def split: option.splits prod.splits sum.splits
      dest!: GetRecords_loop_run)

lemma as_done_run:
  "as_done (r, s1) p = Some (res, p', s') \<Longrightarrow> s' = s1 \<and> err_of res = err_of r"
  by (cases r) auto

lemma exec_op_run:
  assumes "exec_op n b fq env x p s = Some (res, p', s')"
  shows "\<exists>ext. trace s' = trace s @ ext \<and> well_run ext (err_of res)"
proof (cases x)
  case (OpInit root)
  with assms show ?thesis
    by (auto split: prod.splits sum.splits dest!: Init_run)
next
  case OpHealthCheck
  with assms show ?thesis
    by (cases "HealthCheck b p s") (auto dest!: as_done_run HealthCheck_run)
next
  case OpGetRecords
  with assms show ?thesis
    by (auto split: option.splits prod.splits sum.splits dest!: GetRecords_run)
next
  case (OpAddRecord r)
  with assms show ?thesis
    by (cases "AddRecord b p r s") (auto dest!: as_done_run AddRecord_run)
next
  case (OpUpdateRecord r)
  with assms show ?thesis
    by (cases "UpdateRecord b p r s") (auto dest!: as_done_run UpdateRecord_run)
next
  case (OpRemoveRecord r)
  with assms show ?thesis
    by (cases "RemoveRecord b p r s") (auto dest!: as_done_run RemoveRecord_run)
qed

subsection \<open>AddRecord\<close>

text \<open>
  C10. \<^verbatim>\<open>AddRecord\<close> of a record with no values makes no call, acquires no token, returns
  success and leaves the world as it was; this holds for every provider state, also one that
  was never initialised.
\<close>

theorem AddRecord_no_values:
  "Records record = [] \<Longrightarrow> AddRecord b p record s = (Inr (), s)"
  by (simp add: AddRecord_def)

theorem AddRecord_no_values_witness:
  "Records \<lparr>Fqdn = ''www.example.com.'', Records = [], Type = ''A'', TTL = 1800\<rparr> = []
   \<and> AddRecord mock_backend ready
        \<lparr>Fqdn = ''www.example.com.'', Records = [], Type = ''A'', TTL = 1800\<rparr> (start mock0)
      = (Inr (), \<lparr>world = mock0, trace = []\<rparr>)"
  using AddRecord_no_values [of "\<lparr>Fqdn = ''www.example.com.'', Records = [], Type = ''A'', TTL = 1800\<rparr>"
      mock_backend ready "start mock0"]
  by (simp add: start_def)

subsection \<open>Init\<close>

text \<open>
  C7. When \<^verbatim>\<open>DO_PAT\<close> is not set or is empty, \<^verbatim>\<open>Init\<close> returns the error
  \<^verbatim>\<open>DO_PAT is not set\<close> (the spec's ConfigError) and nothing else happens: the provider, the
  world and the trace are as before, so no API call was made and no token acquired.
\<close>

theorem Init_without_credential:
  "env ''DO_PAT'' = None \<or> env ''DO_PAT'' = Some [] \<Longrightarrow>
   Init b env root p s = (Inl (Error ''DO_PAT is not set''), p, s)"
  by (auto simp: Init_def Getenv_def)

theorem Init_without_credential_witness:
  "(Map.empty(''HOME'' \<mapsto> ''/root'')) ''DO_PAT'' = None
   \<and> Init mock_backend (Map.empty(''HOME'' \<mapsto> ''/root'')) ''example.com.'' registered (start mock0)
      = (Inl (Error ''DO_PAT is not set''), registered, \<lparr>world = mock0, trace = []\<rparr>)"
  using Init_without_credential [of "Map.empty(''HOME'' \<mapsto> ''/root'')" mock_backend
      "''example.com.''" registered "start mock0"]
  by (simp add: start_def)

subsection \<open>RemoveRecord\<close>

lemma RemoveRecord_loop_append:
  "RemoveRecord_loop b p record (xs @ ys) s =
     (case RemoveRecord_loop b p record xs s of
        (Inl e, s1) \<Rightarrow> (Inl e, s1)
      | (Inr u, s1) \<Rightarrow> RemoveRecord_loop b p record ys s1)"
  by (induction xs arbitrary: s) (auto split: prod.splits sum.splits)

text \<open>
  C1, as the code has it. The loop returns at the first delete call that fails: when the
  rows before \<open>rec\<close> were processed without error and the deletion of the matching row
  \<open>rec\<close> fails with message \<open>m\<close>, \<^verbatim>\<open>RemoveRecord\<close> returns that failure, wrapped, in the
  state \<open>s5\<close> the failed call left. The rows after \<open>rec\<close> play no part: no token is
  acquired and no call made for them. The deletions made before are those of the state \<open>s3\<close>,
  from which the failing call started; nothing undoes them.
\<close>

theorem RemoveRecord_fails_fast:
  assumes "limiter_Wait p 1 s = (Inr (), s1)"
    and "Domains_Records b p (rootDomainName p) None s1 = (Inr (pre @ rec # post, resp), s2)"
    and "RemoveRecord_loop b p record pre s2 = (Inr (), s3)"
    and "rec_Name rec = Fqdn record" and "rec_Type rec = Type record"
    and "limiter_Wait p 1 s3 = (Inr (), s4)"
    and "Domains_DeleteRecord b p (rootDomainName p) (rec_ID rec) s4 = (Inl (Error m), s5)"
  shows "RemoveRecord b p record s
           = (Inl (Error (''DigitalOcean API call has failed: '' @ m)), s5)
         \<and> trace s5 = trace s3 @
             [Wait 1, Call (DomainsDeleteRecord (rootDomainName p) (rec_ID rec)) (Some m)]"
proof -
  have "RemoveRecord_loop b p record (rec # post) s3 = (Inl (api_failed (Error m)), s5)"
    using assms(4-7) by simp
  then have "RemoveRecord_loop b p record (pre @ rec # post) s2 = (Inl (api_failed (Error m)), s5)"
    using assms(3) by (simp add: RemoveRecord_loop_append)
  then have "RemoveRecord b p record s = (Inl (api_failed (Error m)), s5)"
    using assms(1,2) by (simp add: RemoveRecord_def)
  moreover have "trace s4 = trace s3 @ [Wait 1]"
    using assms(6) by (auto simp: limiter_Wait_def split: option.splits)
  moreover have "trace s5 = trace s4 @
      [Call (DomainsDeleteRecord (rootDomainName p) (rec_ID rec)) (Some m)]"
    using assms(7)
    by (auto simp: Domains_DeleteRecord_def log_call_def split: option.splits prod.splits sum.splits)
  ultimately show ?thesis by (simp add: GetName_def)
qed

theorem RemoveRecord_fails_fast_witness:
  "limiter_Wait ready 1 (start (mock0\<lparr>m_rows := [row 1 ''A'' ''a.example.com'' ''1.1.1.1'',
        row 2 ''A'' ''a.example.com'' ''1.1.1.2'', row 3 ''A'' ''a.example.com'' ''1.1.1.3''],
        m_per_page := 5, m_fail_delete := [2]\<rparr>))
     = (Inr (), \<lparr>world = mock0\<lparr>m_rows := [row 1 ''A'' ''a.example.com'' ''1.1.1.1'',
          row 2 ''A'' ''a.example.com'' ''1.1.1.2'', row 3 ''A'' ''a.example.com'' ''1.1.1.3''],
          m_per_page := 5, m_fail_delete := [2]\<rparr>, trace = [Wait 1]\<rparr>)
   \<and> RemoveRecord mock_backend ready
       \<lparr>Fqdn = ''a.example.com'', Records = [], Type = ''A'', TTL = 1800\<rparr>
       (start (mock0\<lparr>m_rows := [row 1 ''A'' ''a.example.com'' ''1.1.1.1'',
          row 2 ''A'' ''a.example.com'' ''1.1.1.2'', row 3 ''A'' ''a.example.com'' ''1.1.1.3''],
          m_per_page := 5, m_fail_delete := [2]\<rparr>))
     = (Inl (Error ''DigitalOcean API call has failed: delete refused''),
        \<lparr>world = mock0\<lparr>m_rows := [row 2 ''A'' ''a.example.com'' ''1.1.1.2'',
           row 3 ''A'' ''a.example.com'' ''1.1.1.3''], m_per_page := 5, m_fail_delete := [2]\<rparr>,
         trace = [Wait 1, Call (DomainsRecords ''example.com'' None) None,
                  Wait 1, Call (DomainsDeleteRecord ''example.com'' 1) None,
                  Wait 1, Call (DomainsDeleteRecord ''example.com'' 2) (Some ''delete refused'')]\<rparr>)"
proof -
  let ?r1 = "row 1 ''A'' ''a.example.com'' ''1.1.1.1''"
  let ?r2 = "row 2 ''A'' ''a.example.com'' ''1.1.1.2''"
  let ?r3 = "row 3 ''A'' ''a.example.com'' ''1.1.1.3''"
  let ?w = "mock0\<lparr>m_rows := [?r1, ?r2, ?r3], m_per_page := 5, m_fail_delete := [2]\<rparr>"
  let ?w' = "mock0\<lparr>m_rows := [?r2, ?r3], m_per_page := 5, m_fail_delete := [2]\<rparr>"
  let ?t2 = "[Wait 1, Call (DomainsRecords ''example.com'' None) None]"
  let ?t3 = "?t2 @ [Wait 1, Call (DomainsDeleteRecord ''example.com'' 1) None]"
  let ?target = "\<lparr>Fqdn = ''a.example.com'', Records = [], Type = ''A'', TTL = 1800\<rparr>"
  let ?resp = "\<lparr>resp_Links = Some \<lparr>IsLastPage = True, CurrentPage = Inr 1\<rparr>\<rparr>"
  have h1: "limiter_Wait ready 1 (start ?w) = (Inr (), \<lparr>world = ?w, trace = [Wait 1]\<rparr>)"
    by (simp add: prim_defs mock_defs)
  have h2: "Domains_Records mock_backend ready (rootDomainName ready) None
              \<lparr>world = ?w, trace = [Wait 1]\<rparr>
            = (Inr ([?r1] @ ?r2 # [?r3], ?resp), \<lparr>world = ?w, trace = ?t2\<rparr>)"
    by (simp add: prim_defs mock_defs)
  have h3: "RemoveRecord_loop mock_backend ready ?target [?r1] \<lparr>world = ?w, trace = ?t2\<rparr>
            = (Inr (), \<lparr>world = ?w', trace = ?t3\<rparr>)"
    by (simp add: prim_defs mock_defs)
  have h4: "rec_Name ?r2 = Fqdn ?target" and h5: "rec_Type ?r2 = Type ?target"
    by (simp_all add: row_def)
  have h6: "limiter_Wait ready 1 \<lparr>world = ?w', trace = ?t3\<rparr>
            = (Inr (), \<lparr>world = ?w', trace = ?t3 @ [Wait 1]\<rparr>)"
    by (simp add: prim_defs mock_defs)
  have h7: "Domains_DeleteRecord mock_backend ready (rootDomainName ready) (rec_ID ?r2)
              \<lparr>world = ?w', trace = ?t3 @ [Wait 1]\<rparr>
            = (Inl (Error ''delete refused''),
               \<lparr>world = ?w', trace = ?t3 @ [Wait 1,
                  Call (DomainsDeleteRecord ''example.com'' 2) (Some ''delete refused'')]\<rparr>)"
    by (simp add: prim_defs mock_defs)
  show ?thesis
    using RemoveRecord_fails_fast [OF h1 h2 h3 h4 h5 h6 h7] h1 by (simp add: ready_def row_def)
qed

text \<open>
  C1, as the spec has it, fails. Two rows match and the deletion of the first fails:
  \<^verbatim>\<open>RemoveRecord\<close> returns at once, and the second row is neither deleted nor asked for.
\<close>

theorem RemoveRecord_continues_counterexample:
  "RemoveRecord mock_backend ready
       \<lparr>Fqdn = ''a.example.com'', Records = [], Type = ''A'', TTL = 1800\<rparr>
       (start (mock0\<lparr>m_rows := [row 1 ''A'' ''a.example.com'' ''1.1.1.1'',
          row 2 ''A'' ''a.example.com'' ''1.1.1.2''], m_fail_delete := [1]\<rparr>))
     = (Inl (Error ''DigitalOcean API call has failed: delete refused''),
        \<lparr>world = mock0\<lparr>m_rows := [row 1 ''A'' ''a.example.com'' ''1.1.1.1'',
           row 2 ''A'' ''a.example.com'' ''1.1.1.2''], m_fail_delete := [1]\<rparr>,
         trace = [Wait 1, Call (DomainsRecords ''example.com'' None) None,
                  Wait 1, Call (DomainsDeleteRecord ''example.com'' 1) (Some ''delete refused'')]\<rparr>)"
  by (simp add: RemoveRecord_def prim_defs mock_defs GetName_def)

text \<open>
  C2, at the input where the code departs from it. The listing has the row of label
  \<^verbatim>\<open>www\<close> and type \<^verbatim>\<open>A\<close> of the domain \<^verbatim>\<open>example.com\<close>; the record to remove is
  \<^verbatim>\<open>www.example.com\<close> of type \<^verbatim>\<open>A\<close>. \<^verbatim>\<open>RemoveRecord\<close> compares the label itself
  with the record's name, finds no match, makes no delete call and returns success; the row
  stays.
\<close>

theorem RemoveRecord_label_not_joined:
  "RemoveRecord mock_backend ready
       \<lparr>Fqdn = ''www.example.com'', Records = [''1.2.3.4''], Type = ''A'', TTL = 1800\<rparr>
       (start (mock0\<lparr>m_rows := [row 1 ''A'' ''www'' ''1.2.3.4'']\<rparr>))
     = (Inr (),
        \<lparr>world = mock0\<lparr>m_rows := [row 1 ''A'' ''www'' ''1.2.3.4'']\<rparr>,
         trace = [Wait 1, Call (DomainsRecords ''example.com'' None) None]\<rparr>)"
  by (simp add: RemoveRecord_def prim_defs mock_defs)

subsection \<open>The rate limiter\<close>

lemma well_run_gated: "well_run ext r \<Longrightarrow> gated ext"
  by (induction ext r rule: well_run.induct) auto

lemma gated_append: "gated a \<Longrightarrow> gated b \<Longrightarrow> gated (a @ b)"
proof (induction a rule: gated.induct)
  case (3 n)
  then show ?case by (cases b rule: gated.cases) auto
qed auto

lemma exec_op_gated:
  "gated (trace s) \<Longrightarrow> exec_op n b fq env x p s = Some (res, p', s') \<Longrightarrow> gated (trace s')"
  using exec_op_run [of n b fq env x p s res p' s'] gated_append well_run_gated by fastforce

lemma run_ops_gated:
  "gated (trace s) \<Longrightarrow> run_ops n b fq env xs p s = Some (p', s') \<Longrightarrow> gated (trace s')"
proof (induction xs arbitrary: p s)
  case Nil
  then show ?case by simp
next
  case (Cons x xs)
  from Cons.prems(2) obtain res p1 s1 where
    x: "exec_op n b fq env x p s = Some (res, p1, s1)"
    and xs: "run_ops n b fq env xs p1 s1 = Some (p', s')"
    by (auto split: option.splits)
  from Cons.prems(1) x have "gated (trace s1)" by (rule exec_op_gated)
  then show ?case using xs by (rule Cons.IH)
qed

lemma gated_call_preceded:
  "gated tr \<Longrightarrow> tr = pre @ Call c r # post \<Longrightarrow> \<exists>pre'. pre = pre' @ [Wait 1]"
proof (induction tr arbitrary: pre rule: gated.induct)
  case 1
  then show ?case by simp
next
  case (2 c' r' tr)
  from 2(1) show ?case by simp
next
  case (3 n)
  then show ?case by (cases pre) auto
next
  case (4 n m tr)
  from 4(2) have g: "gated (Wait m # tr)" by simp
  show ?case
  proof (cases pre)
    case Nil
    with 4(3) show ?thesis by simp
  next
    case (Cons a pre1)
    with 4(3) have "Wait m # tr = pre1 @ Call c r # post" by simp
    from 4(1) [OF g this] obtain q where "pre1 = q @ [Wait 1]" by blast
    with Cons show ?thesis by simp
  qed
next
  case (5 n c' r' tr)
  show ?case
  proof (cases pre)
    case Nil
    with 5 show ?thesis by simp
  next
    case (Cons a pre1)
    show ?thesis
    proof (cases pre1)
      case Nil
      with Cons 5 show ?thesis by auto
    next
      case (Cons a' pre2)
      with \<open>pre = a # pre1\<close> 5 have "tr = pre2 @ Call c r # post" "gated tr" by auto
      with 5 obtain q where "pre2 = q @ [Wait 1]" by blast
      with Cons \<open>pre = a # pre1\<close> show ?thesis by simp
    qed
  qed
qed

text \<open>
  C9. After any sequence of calls of the provider contract, started from a trace where every
  API call follows a token, every API call of the trace follows a token: the event right
  before it is the acquisition of exactly one token. This covers the calls made inside
  \<^verbatim>\<open>UpdateRecord\<close>, and a provider that was never initialised (it panics on the limiter
  before it reaches the API).
\<close>

theorem calls_are_gated:
  assumes "gated (trace s)" and "run_ops n b fq env xs p s = Some (p', s')"
  shows "gated (trace s')
    \<and> (\<forall>pre c r post. trace s' = pre @ Call c r # post \<longrightarrow> (\<exists>pre'. pre = pre' @ [Wait 1]))"
proof -
  from assms have g: "gated (trace s')" by (rule run_ops_gated)
  then show ?thesis using gated_call_preceded by blast
qed

theorem calls_are_gated_witness:
  "gated (trace (start (mock0\<lparr>m_rows := [row 7 ''A'' ''api.example.com'' ''1.1.1.1'',
      row 8 ''A'' ''www'' ''1.2.3.4'']\<rparr>)))
   \<and> run_ops 3 mock_backend Fqdn_dot [''DO_PAT'' \<mapsto> ''token'']
       [OpHealthCheck, OpInit ''example.com.'',
        OpUpdateRecord \<lparr>Fqdn = ''api.example.com'', Records = [''9.9.9.9'', ''8.8.8.8''],
          Type = ''A'', TTL = 1800\<rparr>,
        OpGetRecords,
        OpRemoveRecord \<lparr>Fqdn = ''www'', Records = [], Type = ''A'', TTL = 1800\<rparr>]
       registered
       (start (mock0\<lparr>m_rows := [row 7 ''A'' ''api.example.com'' ''1.1.1.1'',
          row 8 ''A'' ''www'' ''1.2.3.4'']\<rparr>))
     = Some (ready,
        \<lparr>world = mock0\<lparr>m_rows := [row 1 ''A'' ''api.example.com'' ''9.9.9.9'',
           row 2 ''A'' ''api.example.com'' ''8.8.8.8''], m_next_id := 3\<rparr>,
         trace =
          [Wait 1, Call AccountGet None,
           Wait 1, Call (DomainsGet ''example.com'') None,
           Wait 1, Call (DomainsRecords ''example.com'' None) None,
           Wait 1, Call (DomainsDeleteRecord ''example.com'' 7) None,
           Wait 1, Call (DomainsCreateRecord ''example.com''
             \<lparr>req_Type = ''A'', req_Name = ''api.example.com'', req_Data = ''9.9.9.9''\<rparr>) None,
           Wait 1, Call (DomainsCreateRecord ''example.com''
             \<lparr>req_Type = ''A'', req_Name = ''api.example.com'', req_Data = ''8.8.8.8''\<rparr>) None,
           Wait 1, Call (DomainsRecords ''example.com'' (Some \<lparr>Page = 0, PerPage = 0\<rparr>)) None,
           Wait 1, Call (DomainsRecords ''example.com'' (Some \<lparr>Page = 2, PerPage = 0\<rparr>)) None,
           Wait 1, Call (DomainsRecords ''example.com'' None) None,
           Wait 1, Call (DomainsDeleteRecord ''example.com'' 8) None]\<rparr>)
   \<and> gated
          [Wait 1, Call AccountGet None,
           Wait 1, Call (DomainsGet ''example.com'') None,
           Wait 1, Call (DomainsRecords ''example.com'' None) None,
           Wait 1, Call (DomainsDeleteRecord ''example.com'' 7) None,
           Wait 1, Call (DomainsCreateRecord ''example.com''
             \<lparr>req_Type = ''A'', req_Name = ''api.example.com'', req_Data = ''9.9.9.9''\<rparr>) None,
           Wait 1, Call (DomainsCreateRecord ''example.com''
             \<lparr>req_Type = ''A'', req_Name = ''api.example.com'', req_Data = ''8.8.8.8''\<rparr>) None,
           Wait 1, Call (DomainsRecords ''example.com'' (Some \<lparr>Page = 0, PerPage = 0\<rparr>)) None,
           Wait 1, Call (DomainsRecords ''example.com'' (Some \<lparr>Page = 2, PerPage = 0\<rparr>)) None,
           Wait 1, Call (DomainsRecords ''example.com'' None) None,
           Wait 1, Call (DomainsDeleteRecord ''example.com'' 8) None]"
  (is "?h1 \<and> ?run = Some (ready, ?S) \<and> gated ?tr")
proof -
  have h1: ?h1 by (simp add: start_def)
  have h2: "?run = Some (ready, ?S)" by code_simp
  have "gated (trace ?S)" by (rule conjunct1 [OF calls_are_gated [OF h1 h2]])
  then have g: "gated ?tr" by simp
  show ?thesis by (rule conjI [OF h1 conjI [OF h2 g]])
qed

subsection \<open>Errors\<close>

lemma well_run_failures:
  "well_run ext r \<Longrightarrow> (c, m) \<in> set (failures ext) \<Longrightarrow>
   r = Some (returned_error c m) \<and> last ext = Call c (Some m)"
  by (induction ext r rule: well_run.induct) auto

text \<open>
  C8, as the code has it. When a call of the API fails during an operation, the operation
  returns an error and the failed call is the last thing it did: no failure is swallowed.
  The error is \<open>returned_error c m\<close>: the API's error wrapped with the provider's name for a
  create, a delete and a page listing of \<^verbatim>\<open>GetRecords\<close>; the API's error as it is for the
  lookups of \<^verbatim>\<open>Init\<close> and \<^verbatim>\<open>HealthCheck\<close> and for the listing of \<^verbatim>\<open>RemoveRecord\<close>.
\<close>

theorem backend_failure_returned:
  assumes "exec_op n b fq env x p s = Some (res, p', s')"
    and "(c, m) \<in> set (failures (drop (length (trace s)) (trace s')))"
  shows "res = Inl (returned_error c m) \<and> last (trace s') = Call c (Some m)"
proof -
  from assms(1) obtain ext where ext: "trace s' = trace s @ ext" "well_run ext (err_of res)"
    using exec_op_run by blast
  with assms(2) have f: "(c, m) \<in> set (failures ext)" by simp
  with ext(2) have r: "err_of res = Some (returned_error c m)" "last ext = Call c (Some m)"
    using well_run_failures by blast+
  from f have "ext \<noteq> []" by auto
  with ext(1) r(2) have "last (trace s') = Call c (Some m)" by simp
  moreover from r(1) have "res = Inl (returned_error c m)" by (cases res) auto
  ultimately show ?thesis by simp
qed

theorem backend_failure_returned_witness:
  "exec_op 1 mock_backend Fqdn_dot Map.empty
       (OpAddRecord \<lparr>Fqdn = ''api.example.com'', Records = [''9.9.9.9''], Type = ''A'', TTL = 1800\<rparr>)
       ready (start (mock0\<lparr>m_fail_create := [''9.9.9.9'']\<rparr>))
     = Some (Inl (Error ''DigitalOcean API call has failed: create refused''), ready,
        \<lparr>world = mock0\<lparr>m_fail_create := [''9.9.9.9'']\<rparr>,
         trace = [Wait 1, Call (DomainsCreateRecord ''example.com''
           \<lparr>req_Type = ''A'', req_Name = ''api.example.com'', req_Data = ''9.9.9.9''\<rparr>)
           (Some ''create refused'')]\<rparr>)
   \<and> (DomainsCreateRecord ''example.com''
         \<lparr>req_Type = ''A'', req_Name = ''api.example.com'', req_Data = ''9.9.9.9''\<rparr>,
        ''create refused'')
       \<in> set (failures (drop (length (trace (start (mock0\<lparr>m_fail_create := [''9.9.9.9'']\<rparr>))))
           [Wait 1, Call (DomainsCreateRecord ''example.com''
             \<lparr>req_Type = ''A'', req_Name = ''api.example.com'', req_Data = ''9.9.9.9''\<rparr>)
             (Some ''create refused'')]))
   \<and> Error ''DigitalOcean API call has failed: create refused''
       = returned_error (DomainsCreateRecord ''example.com''
           \<lparr>req_Type = ''A'', req_Name = ''api.example.com'', req_Data = ''9.9.9.9''\<rparr>)
           ''create refused''"
  (is "?run = Some (Inl ?e, ready, ?S) \<and> (?c, ?m) \<in> set (failures (drop ?k ?tr)) \<and> ?e = _")
proof -
  have h1: "?run = Some (Inl ?e, ready, ?S)" by code_simp
  have h2: "(?c, ?m) \<in> set (failures (drop ?k ?tr))" by (simp add: start_def)
  then have h2': "(?c, ?m) \<in> set (failures (drop ?k (trace ?S)))" by simp
  have "Inl ?e = (Inl (returned_error ?c ?m) :: error + retval)"
    by (rule conjunct1 [OF backend_failure_returned [OF h1 h2']])
  then have h3: "?e = returned_error ?c ?m" by (simp only: sum.inject)
  show ?thesis by (rule conjI [OF h1 conjI [OF h2 h3]])
qed

text \<open>
  C8, as the spec has it, fails: the domain lookup of \<^verbatim>\<open>HealthCheck\<close> fails with
  \<^verbatim>\<open>not found\<close>, and \<^verbatim>\<open>HealthCheck\<close> returns that error as it is, without the provider's
  name.
\<close>

theorem HealthCheck_unwrapped_counterexample:
  "HealthCheck mock_backend ready (start (mock0\<lparr>m_domain := None\<rparr>))
     = (Inl (Error ''not found''),
        \<lparr>world = mock0\<lparr>m_domain := None\<rparr>,
         trace = [Wait 1, Call (DomainsGet ''example.com'') (Some ''not found'')]\<rparr>)
   \<and> Error ''not found'' \<noteq> api_failed (Error ''not found'')"
  by (simp add: HealthCheck_def prim_defs mock_defs GetName_def)

subsection \<open>UpdateRecord\<close>

lemma creates_of_append: "creates_of (a @ b) = creates_of a @ creates_of b"
  by (induction a rule: creates_of.induct) auto

lemma RemoveRecord_loop_no_create:
  "RemoveRecord_loop b p r rows s = (res, s') \<Longrightarrow> creates_of (trace s') = creates_of (trace s)"
proof (induction rows arbitrary: s)
  case Nil
  then show ?case by simp
next
  case (Cons x rows)
  from Cons.prems show ?case
    by (auto simp: creates_of_append split: prod.splits sum.splits if_splits
        elim!: prim_elims dest!: Cons.IH)
qed

lemma RemoveRecord_no_create:
  "RemoveRecord b p r s = (res, s') \<Longrightarrow> creates_of (trace s') = creates_of (trace s)"
  by (auto simp: RemoveRecord_def creates_of_append split: prod.splits sum.splits
      elim!: prim_elims dest!: RemoveRecord_loop_no_create)

lemma AddRecord_loop_creates:
  "AddRecord_loop b p r vs s = (res, s') \<Longrightarrow>
   \<exists>k. creates_of (trace s') = creates_of (trace s) @
     map (\<lambda>v. \<lparr>req_Type = Type r, req_Name = Fqdn r, req_Data = v\<rparr>) (take k vs)"
proof (induction vs arbitrary: s)
  case Nil
  then show ?case by simp
next
  case (Cons v vs)
  let ?mk = "\<lambda>v. \<lparr>req_Type = Type r, req_Name = Fqdn r, req_Data = v\<rparr>"
  obtain r1 s1 where w: "limiter_Wait p 1 s = (r1, s1)" by fastforce
  obtain r2 s2 where c: "Domains_CreateRecord b p (rootDomainName p) (?mk v) s1 = (r2, s2)"
    by fastforce
  from w show ?case
  proof (cases rule: limiter_WaitE)
    case 1
    with w Cons.prems have "s' = s" by simp
    then show ?thesis by (intro exI [of _ 0]) simp
  next
    case 2
    from c show ?thesis
    proof (cases rule: Domains_CreateRecordE)
      case 1
      with 2 w c Cons.prems have "trace s' = trace s @ [Wait 1]" by simp
      then show ?thesis by (intro exI [of _ 0]) (simp add: creates_of_append)
    next
      case (2 m)
      with \<open>r1 = Inr ()\<close> \<open>trace s1 = trace s @ [Wait 1]\<close> w c Cons.prems
      have "trace s' = trace s @ [Wait 1,
          Call (DomainsCreateRecord (rootDomainName p) (?mk v)) (Some m)]" by simp
      then show ?thesis by (intro exI [of _ 1]) (simp add: creates_of_append)
    next
      case (3 a)
      with \<open>r1 = Inr ()\<close> w c Cons.prems have "AddRecord_loop b p r vs s2 = (res, s')" by simp
      then obtain k where "creates_of (trace s') = creates_of (trace s2) @ map ?mk (take k vs)"
        using Cons.IH by blast
      with 3 \<open>trace s1 = trace s @ [Wait 1]\<close> show ?thesis
        by (intro exI [of _ "Suc k"]) (simp add: creates_of_append)
    qed
  qed
qed

text \<open>
  C6. \<^verbatim>\<open>UpdateRecord\<close> is \<^verbatim>\<open>RemoveRecord\<close> and then \<^verbatim>\<open>AddRecord\<close>. When the removal
  returns an error, \<^verbatim>\<open>UpdateRecord\<close> returns it in the state the removal left, and no create
  request was made. When the removal succeeds, result and final state are those of
  \<^verbatim>\<open>AddRecord\<close> run after it, whether it fails or not, and all create requests of the
  update are for values of the record, the first \<open>k\<close> of them in order: nothing puts a
  removed value back.
\<close>

theorem UpdateRecord_remove_then_add:
  "(RemoveRecord b p r s = (Inl err, s1) \<longrightarrow>
      UpdateRecord b p r s = (Inl err, s1) \<and> creates_of (trace s1) = creates_of (trace s))
   \<and> (RemoveRecord b p r s = (Inr u, s1) \<longrightarrow>
      UpdateRecord b p r s = AddRecord b p r s1
      \<and> (\<exists>k. creates_of (trace (snd (AddRecord b p r s1))) = creates_of (trace s) @
            map (\<lambda>v. \<lparr>req_Type = Type r, req_Name = Fqdn r, req_Data = v\<rparr>)
              (take k (Records r))))"
proof (intro conjI impI)
  assume "RemoveRecord b p r s = (Inl err, s1)"
  then show "UpdateRecord b p r s = (Inl err, s1)" by (simp add: UpdateRecord_def)
next
  assume "RemoveRecord b p r s = (Inl err, s1)"
  then show "creates_of (trace s1) = creates_of (trace s)" by (rule RemoveRecord_no_create)
next
  assume "RemoveRecord b p r s = (Inr u, s1)"
  then show "UpdateRecord b p r s = AddRecord b p r s1" by (simp add: UpdateRecord_def)
next
  assume rm: "RemoveRecord b p r s = (Inr u, s1)"
  obtain res s2 where add: "AddRecord b p r s1 = (res, s2)" by fastforce
  then obtain k where "creates_of (trace s2) = creates_of (trace s1) @
      map (\<lambda>v. \<lparr>req_Type = Type r, req_Name = Fqdn r, req_Data = v\<rparr>) (take k (Records r))"
    unfolding AddRecord_def using AddRecord_loop_creates by blast
  with add RemoveRecord_no_create [OF rm]
  show "\<exists>k. creates_of (trace (snd (AddRecord b p r s1))) = creates_of (trace s) @
      map (\<lambda>v. \<lparr>req_Type = Type r, req_Name = Fqdn r, req_Data = v\<rparr>) (take k (Records r))"
    by auto
qed

theorem UpdateRecord_remove_then_add_witness:
  "RemoveRecord mock_backend ready
       \<lparr>Fqdn = ''api.example.com'', Records = [''9.9.9.9''], Type = ''A'', TTL = 1800\<rparr>
       (start (mock0\<lparr>m_rows := [row 7 ''A'' ''api.example.com'' ''1.1.1.1''],
          m_fail_create := [''9.9.9.9'']\<rparr>))
     = (Inr (),
        \<lparr>world = mock0\<lparr>m_rows := [], m_fail_create := [''9.9.9.9'']\<rparr>,
         trace = [Wait 1, Call (DomainsRecords ''example.com'' None) None,
                  Wait 1, Call (DomainsDeleteRecord ''example.com'' 7) None]\<rparr>)
   \<and> UpdateRecord mock_backend ready
       \<lparr>Fqdn = ''api.example.com'', Records = [''9.9.9.9''], Type = ''A'', TTL = 1800\<rparr>
       (start (mock0\<lparr>m_rows := [row 7 ''A'' ''api.example.com'' ''1.1.1.1''],
          m_fail_create := [''9.9.9.9'']\<rparr>))
     = (Inl (Error ''DigitalOcean API call has failed: create refused''),
        \<lparr>world = mock0\<lparr>m_rows := [], m_fail_create := [''9.9.9.9'']\<rparr>,
         trace = [Wait 1, Call (DomainsRecords ''example.com'' None) None,
                  Wait 1, Call (DomainsDeleteRecord ''example.com'' 7) None,
                  Wait 1, Call (DomainsCreateRecord ''example.com''
                    \<lparr>req_Type = ''A'', req_Name = ''api.example.com'', req_Data = ''9.9.9.9''\<rparr>)
                    (Some ''create refused'')]\<rparr>)"
  (is "RemoveRecord _ _ ?api ?s = (Inr (), ?S1) \<and> UpdateRecord _ _ _ _ = ?R")
proof -
  have h: "RemoveRecord mock_backend ready ?api ?s = (Inr (), ?S1)" by code_simp
  have a: "AddRecord mock_backend ready ?api ?S1 = ?R" by code_simp
  note t = UpdateRecord_remove_then_add [where b = mock_backend and p = ready and r = "?api"
      and s = "?s" and ?s1.0 = "?S1" and u = "()"]
  have "UpdateRecord mock_backend ready ?api ?s = AddRecord mock_backend ready ?api ?S1"
    by (rule conjunct1 [OF mp [OF conjunct2 [OF t] h]])
  then have u: "UpdateRecord mock_backend ready ?api ?s = ?R" by (simp only: a)
  show ?thesis by (rule conjI [OF h u])
qed

subsection \<open>GetRecords\<close>

lemma GetRecords_loop_fetch:
  "GetRecords_loop n b fq p opt m s =
     (case fetch_pages n b p opt s of
        None \<Rightarrow> None
      | Some (Inl e, s') \<Rightarrow> Some (Inl e, s')
      | Some (Inr rows, s') \<Rightarrow> Some (Inr (foldl (add_row fq (rootDomainName p)) m rows), s'))"
proof (induction n arbitrary: opt m s)
  case 0
  show ?case by simp
next
  case (Suc n)
  show ?case
    by (simp add: Suc.IH Let_def split: prod.splits sum.splits option.splits)
qed

lemma grouped_Nil: "grouped fq root [] []"
  by (simp add: grouped_def entry_def values_of_def)

lemma values_of_snoc:
  "values_of fq root (rows @ [r]) k t =
     (if fq (joined_name root r) = k \<and> rec_Type r = t
      then values_of fq root rows k t @ [rec_Data r] else values_of fq root rows k t)"
  by (simp add: values_of_def)

lemma entry_add_row:
  "entry (add_row fq root m r) k t =
     (if k = fq (joined_name root r) \<and> t = rec_Type r
      then Some ((case entry m k t of None \<Rightarrow> [] | Some sl \<Rightarrow> sl) @ [rec_Data r])
      else entry m k t)"
  by (simp add: add_row_def entry_def update_conv' Let_def split: option.splits)

lemma distinct_add_row:
  "distinct (map fst m) \<Longrightarrow> distinct (map fst (add_row fq root m r))"
  by (simp add: add_row_def distinct_update Let_def split: option.splits)

lemma inner_distinct_add_row:
  assumes "\<And>k rs. map_of m k = Some rs \<Longrightarrow> distinct (map fst rs)"
    and "map_of (add_row fq root m r) k = Some rs"
  shows "distinct (map fst rs)"
  using assms(2) assms(1)
  by (auto simp: add_row_def update_conv' distinct_update Let_def split: option.splits if_splits)

lemma add_row_grouped:
  assumes "grouped fq root m rows"
  shows "grouped fq root (add_row fq root m r) (rows @ [r])"
proof -
  from assms have d: "distinct (map fst m)"
    and di: "\<And>k rs. map_of m k = Some rs \<Longrightarrow> distinct (map fst rs)"
    and e: "\<And>k t. entry m k t =
          (if values_of fq root rows k t = [] then None else Some (values_of fq root rows k t))"
    unfolding grouped_def by blast+
  have "entry (add_row fq root m r) k t =
      (if values_of fq root (rows @ [r]) k t = [] then None
       else Some (values_of fq root (rows @ [r]) k t))" for k t
    by (simp add: entry_add_row e values_of_snoc)
  moreover have "distinct (map fst (add_row fq root m r))"
    using d by (rule distinct_add_row)
  moreover have "distinct (map fst rs)" if "map_of (add_row fq root m r) k = Some rs" for k rs
    using di that by (rule inner_distinct_add_row)
  ultimately show ?thesis
    unfolding grouped_def by blast
qed

lemma foldl_add_row_grouped:
  "grouped fq root m rows0 \<Longrightarrow> grouped fq root (foldl (add_row fq root) m rows) (rows0 @ rows)"
proof (induction rows arbitrary: m rows0)
  case Nil
  then show ?case by simp
next
  case (Cons r rows)
  from Cons.prems have "grouped fq root (add_row fq root m r) (rows0 @ [r])"
    by (rule add_row_grouped)
  from Cons.IH [OF this] show ?case by simp
qed


lemma set_to_records:
  "set (to_records ttl m) =
     {\<lparr>Fqdn = k, Records = sl, Type = t, TTL = ttl\<rparr> | k rs t sl. (k, rs) \<in> set m \<and> (t, sl) \<in> set rs}"
  by (induction m) (auto simp: to_records_def)

lemma in_to_records:
  assumes "distinct (map fst m)" and "\<And>k rs. map_of m k = Some rs \<Longrightarrow> distinct (map fst rs)"
  shows "r \<in> set (to_records ttl m) \<longleftrightarrow> entry m (Fqdn r) (Type r) = Some (Records r) \<and> TTL r = ttl"
proof
  assume "r \<in> set (to_records ttl m)"
  then obtain k rs t sl where r: "r = \<lparr>Fqdn = k, Records = sl, Type = t, TTL = ttl\<rparr>"
    and k: "(k, rs) \<in> set m" and t: "(t, sl) \<in> set rs"
    by (auto simp: set_to_records)
  from k assms(1) have mk: "map_of m k = Some rs" by simp
  with assms(2) t have "map_of rs t = Some sl" by simp
  with mk r show "entry m (Fqdn r) (Type r) = Some (Records r) \<and> TTL r = ttl"
    by (simp add: entry_def)
next
  assume a: "entry m (Fqdn r) (Type r) = Some (Records r) \<and> TTL r = ttl"
  then obtain rs where mk: "map_of m (Fqdn r) = Some rs" and mt: "map_of rs (Type r) = Some (Records r)"
    by (auto simp: entry_def split: option.splits)
  from mk have "(Fqdn r, rs) \<in> set m" by (rule map_of_SomeD)
  moreover from mt have "(Type r, Records r) \<in> set rs" by (rule map_of_SomeD)
  moreover from a have "r = \<lparr>Fqdn = Fqdn r, Records = Records r, Type = Type r, TTL = ttl\<rparr>" by simp
  ultimately show "r \<in> set (to_records ttl m)"
    unfolding set_to_records by blast
qed

lemma distinct_to_records:
  assumes "distinct (map fst m)" and "\<And>k rs. (k, rs) \<in> set m \<Longrightarrow> distinct (map fst rs)"
  shows "distinct (map (\<lambda>r. (Fqdn r, Type r)) (to_records ttl m))"
  using assms
proof (induction m)
  case Nil
  show ?case by (simp add: to_records_def)
next
  case (Cons x m)
  obtain k rs where x: "x = (k, rs)" by (cases x)
  have split: "to_records ttl (x # m) =
      map (\<lambda>(t, sl). \<lparr>Fqdn = k, Records = sl, Type = t, TTL = ttl\<rparr>) rs @ to_records ttl m"
    by (simp add: to_records_def x)
  have keys: "map (\<lambda>r. (Fqdn r, Type r)) (map (\<lambda>(t, sl). \<lparr>Fqdn = k, Records = sl, Type = t, TTL = ttl\<rparr>) rs)
      = map (Pair k) (map fst rs)"
    by (simp add: case_prod_beta comp_def)
  from Cons.prems(2) [of k rs] x have "distinct (map fst rs)" by simp
  then have d1: "distinct (map (Pair k) (map fst rs))"
    by (simp add: distinct_map inj_on_def)
  from Cons.prems have d2: "distinct (map (\<lambda>r. (Fqdn r, Type r)) (to_records ttl m))"
    by (intro Cons.IH) auto
  from Cons.prems(1) x have "k \<notin> fst ` set m" by simp
  then have "\<And>r. r \<in> set (to_records ttl m) \<Longrightarrow> Fqdn r \<noteq> k"
    by (force simp: set_to_records)
  then have d3: "set (map (Pair k) (map fst rs)) \<inter> set (map (\<lambda>r. (Fqdn r, Type r)) (to_records ttl m)) = {}"
    by auto
  show ?case
    unfolding split map_append keys using d1 d2 d3 by (simp only: distinct_append simp_thms)
qed

lemma grouped_records:
  assumes "grouped fq root m rows"
  shows "distinct (map (\<lambda>r. (Fqdn r, Type r)) (to_records ttl m))"
    and "r \<in> set (to_records ttl m) \<longleftrightarrow>
      Records r = values_of fq root rows (Fqdn r) (Type r) \<and> Records r \<noteq> [] \<and> TTL r = ttl"
proof -
  from assms have d: "distinct (map fst m)"
    and di: "\<And>k rs. map_of m k = Some rs \<Longrightarrow> distinct (map fst rs)"
    and e: "\<And>k t. entry m k t =
          (if values_of fq root rows k t = [] then None else Some (values_of fq root rows k t))"
    by (auto simp: grouped_def)
  from d di show "distinct (map (\<lambda>r. (Fqdn r, Type r)) (to_records ttl m))"
    by (intro distinct_to_records) auto
  have "r \<in> set (to_records ttl m) \<longleftrightarrow>
      entry m (Fqdn r) (Type r) = Some (Records r) \<and> TTL r = ttl"
    using d di by (rule in_to_records)
  also have "\<dots> \<longleftrightarrow>
      Records r = values_of fq root rows (Fqdn r) (Type r) \<and> Records r \<noteq> [] \<and> TTL r = ttl"
    by (auto simp: e)
  finally show "r \<in> set (to_records ttl m) \<longleftrightarrow>
      Records r = values_of fq root rows (Fqdn r) (Type r) \<and> Records r \<noteq> [] \<and> TTL r = ttl" .
qed

lemma GetRecords_fetch:
  "GetRecords n b fq p s =
     (case fetch_pages n b p \<lparr>Page = 0, PerPage = 0\<rparr> s of
        None \<Rightarrow> None
      | Some (Inl e, s') \<Rightarrow> Some (Inl e, s')
      | Some (Inr rows, s') \<Rightarrow>
          Some (Inr (to_records (p_TTL p) (foldl (add_row fq (rootDomainName p)) [] rows)), s'))"
  by (simp add: GetRecords_def GetRecords_loop_fetch split: option.splits prod.splits sum.splits)

lemma GetRecords_row_record:
  assumes "fetch_pages n b p \<lparr>Page = 0, PerPage = 0\<rparr> s = Some (Inr rows, s')"
    and "x \<in> set rows"
  shows "\<exists>recs. GetRecords n b fq p s = Some (Inr recs, s')
    \<and> (\<exists>r\<in>set recs. Fqdn r = fq (joined_name (rootDomainName p) x) \<and> Type r = rec_Type x
          \<and> rec_Data x \<in> set (Records r))"
proof -
  let ?root = "rootDomainName p"
  let ?m = "foldl (add_row fq ?root) [] rows"
  let ?recs = "to_records (p_TTL p) ?m"
  let ?v = "values_of fq ?root rows (fq (joined_name ?root x)) (rec_Type x)"
  let ?r = "\<lparr>Fqdn = fq (joined_name ?root x), Records = ?v, Type = rec_Type x, TTL = p_TTL p\<rparr>"
  have g: "grouped fq ?root ?m rows"
    using foldl_add_row_grouped [OF grouped_Nil, of fq ?root rows] by simp
  have run: "GetRecords n b fq p s = Some (Inr ?recs, s')"
    using assms(1) by (simp add: GetRecords_fetch)
  from assms(2) have v: "rec_Data x \<in> set ?v" by (auto simp: values_of_def)
  then have "?v \<noteq> []" by auto
  then have "?r \<in> set ?recs" by (simp add: grouped_records(2) [OF g])
  with v run show ?thesis by force
qed

text \<open>
  C4. When the listing completes with the rows \<open>rows\<close> (all pages, in order),
  \<^verbatim>\<open>GetRecords\<close> returns records of which no two have the same name and type; the values of
  each are exactly the data of the rows of its name and type, in the order the rows came, and
  its TTL is the provider's, the domain's; and every row has the record of its name and type.
\<close>

theorem GetRecords_groups:
  assumes "fetch_pages n b p \<lparr>Page = 0, PerPage = 0\<rparr> s = Some (Inr rows, s')"
  shows "\<exists>recs. GetRecords n b fq p s = Some (Inr recs, s')
    \<and> distinct (map (\<lambda>r. (Fqdn r, Type r)) recs)
    \<and> (\<forall>r\<in>set recs. Records r = values_of fq (rootDomainName p) rows (Fqdn r) (Type r)
          \<and> TTL r = p_TTL p)
    \<and> (\<forall>x\<in>set rows. \<exists>r\<in>set recs. Fqdn r = fq (joined_name (rootDomainName p) x)
          \<and> Type r = rec_Type x)"
proof -
  let ?root = "rootDomainName p"
  let ?m = "foldl (add_row fq ?root) [] rows"
  let ?recs = "to_records (p_TTL p) ?m"
  have g: "grouped fq ?root ?m rows"
    using foldl_add_row_grouped [OF grouped_Nil, of fq ?root rows] by simp
  have run: "GetRecords n b fq p s = Some (Inr ?recs, s')"
    using assms by (simp add: GetRecords_fetch)
  have all: "\<exists>r\<in>set ?recs. Fqdn r = fq (joined_name ?root x) \<and> Type r = rec_Type x"
    if "x \<in> set rows" for x
  proof -
    let ?v = "values_of fq ?root rows (fq (joined_name ?root x)) (rec_Type x)"
    let ?r = "\<lparr>Fqdn = fq (joined_name ?root x), Records = ?v, Type = rec_Type x, TTL = p_TTL p\<rparr>"
    from that have "rec_Data x \<in> set ?v" by (auto simp: values_of_def)
    then have "?v \<noteq> []" by auto
    then have "?r \<in> set ?recs" by (simp add: grouped_records(2) [OF g])
    then show ?thesis by force
  qed
  show ?thesis
    using run grouped_records(1) [OF g, of "p_TTL p"] grouped_records(2) [OF g, of _ "p_TTL p"] all
    by (intro exI [of _ ?recs]) auto
qed

theorem GetRecords_groups_witness:
  "fetch_pages 3 mock_backend ready \<lparr>Page = 0, PerPage = 0\<rparr>
       (start (mock0\<lparr>m_rows := [row 1 ''A'' ''www'' ''1.2.3.4'', row 2 ''CNAME'' ''w3'' ''www'',
          row 3 ''A'' ''www'' ''5.6.7.8'']\<rparr>))
     = Some (Inr [row 1 ''A'' ''www'' ''1.2.3.4'', row 2 ''CNAME'' ''w3'' ''www'',
          row 3 ''A'' ''www'' ''5.6.7.8''],
        \<lparr>world = mock0\<lparr>m_rows := [row 1 ''A'' ''www'' ''1.2.3.4'', row 2 ''CNAME'' ''w3'' ''www'',
           row 3 ''A'' ''www'' ''5.6.7.8'']\<rparr>,
         trace = [Wait 1, Call (DomainsRecords ''example.com'' (Some \<lparr>Page = 0, PerPage = 0\<rparr>)) None,
                  Wait 1, Call (DomainsRecords ''example.com'' (Some \<lparr>Page = 2, PerPage = 0\<rparr>)) None]\<rparr>)
   \<and> GetRecords 3 mock_backend Fqdn_dot ready
       (start (mock0\<lparr>m_rows := [row 1 ''A'' ''www'' ''1.2.3.4'', row 2 ''CNAME'' ''w3'' ''www'',
          row 3 ''A'' ''www'' ''5.6.7.8'']\<rparr>))
     = Some (Inr [\<lparr>Fqdn = ''www.example.com.'', Records = [''1.2.3.4'', ''5.6.7.8''], Type = ''A'',
                   TTL = 1800\<rparr>,
                 \<lparr>Fqdn = ''w3.example.com.'', Records = [''www''], Type = ''CNAME'', TTL = 1800\<rparr>],
        \<lparr>world = mock0\<lparr>m_rows := [row 1 ''A'' ''www'' ''1.2.3.4'', row 2 ''CNAME'' ''w3'' ''www'',
           row 3 ''A'' ''www'' ''5.6.7.8'']\<rparr>,
         trace = [Wait 1, Call (DomainsRecords ''example.com'' (Some \<lparr>Page = 0, PerPage = 0\<rparr>)) None,
                  Wait 1, Call (DomainsRecords ''example.com'' (Some \<lparr>Page = 2, PerPage = 0\<rparr>)) None]\<rparr>)
   \<and> distinct [(''www.example.com.'', ''A''), (''w3.example.com.'', ''CNAME'')]"
  (is "?fetch = Some (Inr ?rows, ?S) \<and> ?run = Some (Inr ?recs, ?S) \<and> distinct ?keys")
proof -
  have h: "?fetch = Some (Inr ?rows, ?S)" by code_simp
  have run: "?run = Some (Inr ?recs, ?S)" by code_simp
  from GetRecords_groups [OF h, of Fqdn_dot] run
  have "distinct (map (\<lambda>r. (Fqdn r, Type r)) ?recs)" by simp
  then have d: "distinct ?keys" by simp
  show ?thesis by (rule conjI [OF h conjI [OF run d]])
qed

text \<open>
  C3, as the code has it. With the root domain \<^verbatim>\<open>example.com\<close>, every row of the listing
  has a record of its type that holds its data, whose name is \<^verbatim>\<open>utils.Fqdn\<close> (the parameter
  \<open>fq\<close>) of the joined name: of \<^verbatim>\<open>example.com\<close> for the label \<^verbatim>\<open>@\<close>, of
  \<^verbatim>\<open>www.example.com\<close> for the label \<^verbatim>\<open>www\<close>, of the label, one dot and the root domain
  for every label but \<^verbatim>\<open>@\<close>.
\<close>

theorem GetRecords_names:
  assumes "fetch_pages n b p \<lparr>Page = 0, PerPage = 0\<rparr> s = Some (Inr rows, s')"
    and "rootDomainName p = ''example.com''"
    and "x \<in> set rows"
  shows "\<exists>recs. GetRecords n b fq p s = Some (Inr recs, s')
    \<and> (\<exists>r\<in>set recs. Type r = rec_Type x \<and> rec_Data x \<in> set (Records r)
          \<and> (rec_Name x = ''@'' \<longrightarrow> Fqdn r = fq ''example.com'')
          \<and> (rec_Name x = ''www'' \<longrightarrow> Fqdn r = fq ''www.example.com'')
          \<and> (rec_Name x \<noteq> ''@'' \<longrightarrow> Fqdn r = fq (rec_Name x @ ''.'' @ ''example.com'')))"
proof -
  from GetRecords_row_record [OF assms(1,3), of fq] obtain recs r
    where run: "GetRecords n b fq p s = Some (Inr recs, s')" and r: "r \<in> set recs"
      and name: "Fqdn r = fq (joined_name (rootDomainName p) x)"
      and rest: "Type r = rec_Type x" "rec_Data x \<in> set (Records r)"
    by blast
  from name assms(2) have "rec_Name x = ''@'' \<longrightarrow> Fqdn r = fq ''example.com''"
    and "rec_Name x = ''www'' \<longrightarrow> Fqdn r = fq ''www.example.com''"
    and "rec_Name x \<noteq> ''@'' \<longrightarrow> Fqdn r = fq (rec_Name x @ ''.'' @ ''example.com'')"
    by (simp_all add: joined_name_def)
  with run r rest show ?thesis by blast
qed

theorem GetRecords_names_witness:
  "fetch_pages 1 mock_backend ready \<lparr>Page = 0, PerPage = 0\<rparr>
       (start (mock0\<lparr>m_rows := [row 1 ''A'' ''@'' ''1.1.1.1'', row 2 ''A'' ''www'' ''1.2.3.4'']\<rparr>))
     = Some (Inr [row 1 ''A'' ''@'' ''1.1.1.1'', row 2 ''A'' ''www'' ''1.2.3.4''],
        \<lparr>world = mock0\<lparr>m_rows := [row 1 ''A'' ''@'' ''1.1.1.1'', row 2 ''A'' ''www'' ''1.2.3.4'']\<rparr>,
         trace = [Wait 1, Call (DomainsRecords ''example.com'' (Some \<lparr>Page = 0, PerPage = 0\<rparr>)) None]\<rparr>)
   \<and> rootDomainName ready = ''example.com''
   \<and> row 2 ''A'' ''www'' ''1.2.3.4'' \<in> set [row 1 ''A'' ''@'' ''1.1.1.1'', row 2 ''A'' ''www'' ''1.2.3.4'']
   \<and> (\<exists>recs. GetRecords 1 mock_backend Fqdn_dot ready
          (start (mock0\<lparr>m_rows := [row 1 ''A'' ''@'' ''1.1.1.1'', row 2 ''A'' ''www'' ''1.2.3.4'']\<rparr>))
        = Some (Inr recs,
           \<lparr>world = mock0\<lparr>m_rows := [row 1 ''A'' ''@'' ''1.1.1.1'', row 2 ''A'' ''www'' ''1.2.3.4'']\<rparr>,
            trace = [Wait 1, Call (DomainsRecords ''example.com'' (Some \<lparr>Page = 0, PerPage = 0\<rparr>)) None]\<rparr>)
      \<and> (\<exists>r\<in>set recs. Type r = ''A'' \<and> ''1.2.3.4'' \<in> set (Records r)
            \<and> Fqdn r = Fqdn_dot ''www.example.com''))"
  (is "?fetch = Some (Inr ?rows, ?S) \<and> ?root \<and> ?x \<in> set ?rows \<and> ?concl")
proof -
  have h1: "?fetch = Some (Inr ?rows, ?S)" by code_simp
  have h2: ?root by (simp add: ready_def)
  have h3: "?x \<in> set ?rows" by simp
  from GetRecords_names [OF h1 h2 h3, of Fqdn_dot]
  have c: ?concl by (simp add: row_def)
  show ?thesis by (rule conjI [OF h1 conjI [OF h2 conjI [OF h3 c]]])
qed

text \<open>
  C3, as the spec has it, depends on \<^verbatim>\<open>utils.Fqdn\<close>. With the helper that ends a name with
  a dot, the rows of label \<^verbatim>\<open>@\<close> and \<^verbatim>\<open>www\<close> of \<^verbatim>\<open>example.com\<close> give the names
  \<^verbatim>\<open>example.com.\<close> and \<^verbatim>\<open>www.example.com.\<close>, not \<^verbatim>\<open>example.com\<close> and
  \<^verbatim>\<open>www.example.com\<close>.
\<close>

theorem GetRecords_exact_name_counterexample:
  "GetRecords 1 mock_backend Fqdn_dot ready
       (start (mock0\<lparr>m_rows := [row 1 ''A'' ''@'' ''1.1.1.1'', row 2 ''A'' ''www'' ''1.2.3.4'']\<rparr>))
     = Some (Inr [\<lparr>Fqdn = ''example.com.'', Records = [''1.1.1.1''], Type = ''A'', TTL = 1800\<rparr>,
                 \<lparr>Fqdn = ''www.example.com.'', Records = [''1.2.3.4''], Type = ''A'', TTL = 1800\<rparr>],
        \<lparr>world = mock0\<lparr>m_rows := [row 1 ''A'' ''@'' ''1.1.1.1'', row 2 ''A'' ''www'' ''1.2.3.4'']\<rparr>,
         trace = [Wait 1, Call (DomainsRecords ''example.com'' (Some \<lparr>Page = 0, PerPage = 0\<rparr>)) None]\<rparr>)
   \<and> ''example.com.'' \<noteq> ''example.com'' \<and> ''www.example.com.'' \<noteq> ''www.example.com''"
  by code_simp

lemma fetch_three_pages:
  assumes "limiter p = Some l" and "client p = Some c"
    and "domains_records b c (rootDomainName p) (Some \<lparr>Page = 0, PerPage = 0\<rparr>) w0
           = (Inr (rows1, more_pages k1), w1)"
    and "domains_records b c (rootDomainName p) (Some \<lparr>Page = k1 + 1, PerPage = 0\<rparr>) w1
           = (Inr (rows2, more_pages k2), w2)"
    and "domains_records b c (rootDomainName p) (Some \<lparr>Page = k2 + 1, PerPage = 0\<rparr>) w2
           = (Inr (rows3, resp3), w3)"
    and "is_last resp3"
  shows "fetch_pages (Suc (Suc (Suc n))) b p \<lparr>Page = 0, PerPage = 0\<rparr> \<lparr>world = w0, trace = tr\<rparr>
    = Some (Inr (rows1 @ rows2 @ rows3),
        \<lparr>world = w3, trace = tr @
          [Wait 1, Call (DomainsRecords (rootDomainName p) (Some \<lparr>Page = 0, PerPage = 0\<rparr>)) None,
           Wait 1, Call (DomainsRecords (rootDomainName p) (Some \<lparr>Page = k1 + 1, PerPage = 0\<rparr>)) None,
           Wait 1, Call (DomainsRecords (rootDomainName p) (Some \<lparr>Page = k2 + 1, PerPage = 0\<rparr>)) None]\<rparr>)"
  using assms(6)
  by (simp add: prim_defs assms(1-5) more_pages_def is_last_def split: option.splits)

lemma fetch_one_page:
  assumes "limiter p = Some l" and "client p = Some c"
    and "domains_records b c (rootDomainName p) (Some \<lparr>Page = 0, PerPage = 0\<rparr>) w0
           = (Inr (rows, resp), w1)"
    and "is_last resp"
  shows "fetch_pages (Suc n) b p \<lparr>Page = 0, PerPage = 0\<rparr> \<lparr>world = w0, trace = tr\<rparr>
    = Some (Inr rows,
        \<lparr>world = w1, trace = tr @
          [Wait 1, Call (DomainsRecords (rootDomainName p) (Some \<lparr>Page = 0, PerPage = 0\<rparr>)) None]\<rparr>)"
  using assms(4)
  by (simp add: prim_defs assms(1-3) is_last_def split: option.splits)

text \<open>
  C5. An API that answers the three page requests of \<^verbatim>\<open>GetRecords\<close> with the rows
  \<open>rows1\<close>, \<open>rows2\<close> and \<open>rows3\<close>, and an API that answers the first request with all of
  them: \<^verbatim>\<open>GetRecords\<close> returns on both, with the same set of records (given fuel for three
  requests, one request), and on the first it makes exactly three listing calls, each right
  after the acquisition of one token.
\<close>

theorem GetRecords_three_pages:
  assumes "limiter p = Some l" and "client p = Some c"
    and "domains_records b c (rootDomainName p) (Some \<lparr>Page = 0, PerPage = 0\<rparr>) w0
           = (Inr (rows1, more_pages k1), w1)"
    and "domains_records b c (rootDomainName p) (Some \<lparr>Page = k1 + 1, PerPage = 0\<rparr>) w1
           = (Inr (rows2, more_pages k2), w2)"
    and "domains_records b c (rootDomainName p) (Some \<lparr>Page = k2 + 1, PerPage = 0\<rparr>) w2
           = (Inr (rows3, resp3), w3)"
    and "is_last resp3"
    and "domains_records b' c (rootDomainName p) (Some \<lparr>Page = 0, PerPage = 0\<rparr>) v0
           = (Inr (rows1 @ rows2 @ rows3, resp), v1)"
    and "is_last resp"
  shows "\<exists>recs3 recs1.
      GetRecords (Suc (Suc (Suc n))) b fq p \<lparr>world = w0, trace = tr\<rparr>
        = Some (Inr recs3,
            \<lparr>world = w3, trace = tr @
              [Wait 1, Call (DomainsRecords (rootDomainName p) (Some \<lparr>Page = 0, PerPage = 0\<rparr>)) None,
               Wait 1, Call (DomainsRecords (rootDomainName p) (Some \<lparr>Page = k1 + 1, PerPage = 0\<rparr>)) None,
               Wait 1, Call (DomainsRecords (rootDomainName p) (Some \<lparr>Page = k2 + 1, PerPage = 0\<rparr>)) None]\<rparr>)
    \<and> GetRecords (Suc n') b' fq p \<lparr>world = v0, trace = tr'\<rparr>
        = Some (Inr recs1,
            \<lparr>world = v1, trace = tr' @
              [Wait 1, Call (DomainsRecords (rootDomainName p) (Some \<lparr>Page = 0, PerPage = 0\<rparr>)) None]\<rparr>)
    \<and> set recs3 = set recs1"
proof -
  let ?recs = "to_records (p_TTL p) (foldl (add_row fq (rootDomainName p)) [] (rows1 @ rows2 @ rows3))"
  have "GetRecords (Suc (Suc (Suc n))) b fq p \<lparr>world = w0, trace = tr\<rparr>
        = Some (Inr ?recs,
            \<lparr>world = w3, trace = tr @
              [Wait 1, Call (DomainsRecords (rootDomainName p) (Some \<lparr>Page = 0, PerPage = 0\<rparr>)) None,
               Wait 1, Call (DomainsRecords (rootDomainName p) (Some \<lparr>Page = k1 + 1, PerPage = 0\<rparr>)) None,
               Wait 1, Call (DomainsRecords (rootDomainName p) (Some \<lparr>Page = k2 + 1, PerPage = 0\<rparr>)) None]\<rparr>)"
    unfolding GetRecords_fetch fetch_three_pages [OF assms(1-6)] by simp
  moreover have "GetRecords (Suc n') b' fq p \<lparr>world = v0, trace = tr'\<rparr>
        = Some (Inr ?recs,
            \<lparr>world = v1, trace = tr' @
              [Wait 1, Call (DomainsRecords (rootDomainName p) (Some \<lparr>Page = 0, PerPage = 0\<rparr>)) None]\<rparr>)"
    unfolding GetRecords_fetch fetch_one_page [OF assms(1,2,7,8)] by simp
  ultimately show ?thesis by blast
qed

theorem GetRecords_three_pages_witness:
  "limiter ready = Some \<lparr>capacity = 1\<rparr>
   \<and> client ready = Some \<lparr>AccessToken = ''token''\<rparr>
   \<and> domains_records mock_backend \<lparr>AccessToken = ''token''\<rparr> (rootDomainName ready) (Some \<lparr>Page = 0, PerPage = 0\<rparr>)
       (mock0\<lparr>m_rows := [row 1 ''A'' ''@'' ''1.1.1.1'', row 2 ''A'' ''www'' ''1.2.3.4'',
          row 3 ''A'' ''www'' ''5.6.7.8'', row 4 ''CNAME'' ''w3'' ''www'', row 5 ''A'' ''@'' ''2.2.2.2'']\<rparr>)
     = (Inr ([row 1 ''A'' ''@'' ''1.1.1.1'', row 2 ''A'' ''www'' ''1.2.3.4''], more_pages 1),
        (mock0\<lparr>m_rows := [row 1 ''A'' ''@'' ''1.1.1.1'', row 2 ''A'' ''www'' ''1.2.3.4'',
          row 3 ''A'' ''www'' ''5.6.7.8'', row 4 ''CNAME'' ''w3'' ''www'', row 5 ''A'' ''@'' ''2.2.2.2'']\<rparr>))
   \<and> domains_records mock_backend \<lparr>AccessToken = ''token''\<rparr> (rootDomainName ready) (Some \<lparr>Page = 1 + 1, PerPage = 0\<rparr>)
       (mock0\<lparr>m_rows := [row 1 ''A'' ''@'' ''1.1.1.1'', row 2 ''A'' ''www'' ''1.2.3.4'',
          row 3 ''A'' ''www'' ''5.6.7.8'', row 4 ''CNAME'' ''w3'' ''www'', row 5 ''A'' ''@'' ''2.2.2.2'']\<rparr>)
     = (Inr ([row 3 ''A'' ''www'' ''5.6.7.8'', row 4 ''CNAME'' ''w3'' ''www''], more_pages 2),
        (mock0\<lparr>m_rows := [row 1 ''A'' ''@'' ''1.1.1.1'', row 2 ''A'' ''www'' ''1.2.3.4'',
          row 3 ''A'' ''www'' ''5.6.7.8'', row 4 ''CNAME'' ''w3'' ''www'', row 5 ''A'' ''@'' ''2.2.2.2'']\<rparr>))
   \<and> domains_records mock_backend \<lparr>AccessToken = ''token''\<rparr> (rootDomainName ready) (Some \<lparr>Page = 2 + 1, PerPage = 0\<rparr>)
       (mock0\<lparr>m_rows := [row 1 ''A'' ''@'' ''1.1.1.1'', row 2 ''A'' ''www'' ''1.2.3.4'',
          row 3 ''A'' ''www'' ''5.6.7.8'', row 4 ''CNAME'' ''w3'' ''www'', row 5 ''A'' ''@'' ''2.2.2.2'']\<rparr>)
     = (Inr ([row 5 ''A'' ''@'' ''2.2.2.2''], \<lparr>resp_Links = Some \<lparr>IsLastPage = True, CurrentPage = Inr 3\<rparr>\<rparr>),
        (mock0\<lparr>m_rows := [row 1 ''A'' ''@'' ''1.1.1.1'', row 2 ''A'' ''www'' ''1.2.3.4'',
          row 3 ''A'' ''www'' ''5.6.7.8'', row 4 ''CNAME'' ''w3'' ''www'', row 5 ''A'' ''@'' ''2.2.2.2'']\<rparr>))
   \<and> is_last \<lparr>resp_Links = Some \<lparr>IsLastPage = True, CurrentPage = Inr 3\<rparr>\<rparr>
   \<and> domains_records mock_backend \<lparr>AccessToken = ''token''\<rparr> (rootDomainName ready) (Some \<lparr>Page = 0, PerPage = 0\<rparr>)
       (mock0\<lparr>m_rows := [row 1 ''A'' ''@'' ''1.1.1.1'', row 2 ''A'' ''www'' ''1.2.3.4'',
          row 3 ''A'' ''www'' ''5.6.7.8'', row 4 ''CNAME'' ''w3'' ''www'', row 5 ''A'' ''@'' ''2.2.2.2''],
          m_per_page := 5\<rparr>)
     = (Inr ([row 1 ''A'' ''@'' ''1.1.1.1'', row 2 ''A'' ''www'' ''1.2.3.4''] @ [row 3 ''A'' ''www'' ''5.6.7.8'', row 4 ''CNAME'' ''w3'' ''www''] @ [row 5 ''A'' ''@'' ''2.2.2.2''], \<lparr>resp_Links = Some \<lparr>IsLastPage = True, CurrentPage = Inr 1\<rparr>\<rparr>),
        (mock0\<lparr>m_rows := [row 1 ''A'' ''@'' ''1.1.1.1'', row 2 ''A'' ''www'' ''1.2.3.4'',
          row 3 ''A'' ''www'' ''5.6.7.8'', row 4 ''CNAME'' ''w3'' ''www'', row 5 ''A'' ''@'' ''2.2.2.2''],
          m_per_page := 5\<rparr>))
   \<and> is_last \<lparr>resp_Links = Some \<lparr>IsLastPage = True, CurrentPage = Inr 1\<rparr>\<rparr>
   \<and> (\<exists>recs3 recs1.
      GetRecords (Suc (Suc (Suc 0))) mock_backend Fqdn_dot ready
        \<lparr>world = (mock0\<lparr>m_rows := [row 1 ''A'' ''@'' ''1.1.1.1'', row 2 ''A'' ''www'' ''1.2.3.4'',
          row 3 ''A'' ''www'' ''5.6.7.8'', row 4 ''CNAME'' ''w3'' ''www'', row 5 ''A'' ''@'' ''2.2.2.2'']\<rparr>), trace = []\<rparr>
        = Some (Inr recs3,
            \<lparr>world = (mock0\<lparr>m_rows := [row 1 ''A'' ''@'' ''1.1.1.1'', row 2 ''A'' ''www'' ''1.2.3.4'',
          row 3 ''A'' ''www'' ''5.6.7.8'', row 4 ''CNAME'' ''w3'' ''www'', row 5 ''A'' ''@'' ''2.2.2.2'']\<rparr>), trace = [] @
              [Wait 1, Call (DomainsRecords (rootDomainName ready) (Some \<lparr>Page = 0, PerPage = 0\<rparr>)) None,
               Wait 1, Call (DomainsRecords (rootDomainName ready) (Some \<lparr>Page = 1 + 1, PerPage = 0\<rparr>)) None,
               Wait 1, Call (DomainsRecords (rootDomainName ready) (Some \<lparr>Page = 2 + 1, PerPage = 0\<rparr>)) None]\<rparr>)
    \<and> GetRecords (Suc 0) mock_backend Fqdn_dot ready
        \<lparr>world = (mock0\<lparr>m_rows := [row 1 ''A'' ''@'' ''1.1.1.1'', row 2 ''A'' ''www'' ''1.2.3.4'',
          row 3 ''A'' ''www'' ''5.6.7.8'', row 4 ''CNAME'' ''w3'' ''www'', row 5 ''A'' ''@'' ''2.2.2.2''],
          m_per_page := 5\<rparr>), trace = []\<rparr>
        = Some (Inr recs1,
            \<lparr>world = (mock0\<lparr>m_rows := [row 1 ''A'' ''@'' ''1.1.1.1'', row 2 ''A'' ''www'' ''1.2.3.4'',
          row 3 ''A'' ''www'' ''5.6.7.8'', row 4 ''CNAME'' ''w3'' ''www'', row 5 ''A'' ''@'' ''2.2.2.2''],
          m_per_page := 5\<rparr>), trace = [] @
              [Wait 1, Call (DomainsRecords (rootDomainName ready) (Some \<lparr>Page = 0, PerPage = 0\<rparr>)) None]\<rparr>)
    \<and> set recs3 = set recs1)"
  (is "?h1 \<and> ?h2 \<and> ?h3 \<and> ?h4 \<and> ?h5 \<and> ?h6 \<and> ?h7 \<and> ?h8 \<and> ?c")
proof -
  have h1: ?h1
    by (simp add: mock_defs is_last_def more_pages_def)
  have h2: ?h2
    by (simp add: mock_defs is_last_def more_pages_def)
  have h3: ?h3
    by (simp add: mock_defs is_last_def more_pages_def)
  have h4: ?h4
    by (simp add: mock_defs is_last_def more_pages_def)
  have h5: ?h5
    by (simp add: mock_defs is_last_def more_pages_def)
  have h6: ?h6
    by (simp add: mock_defs is_last_def more_pages_def)
  have h7: ?h7
    by (simp add: mock_defs is_last_def more_pages_def)
  have h8: ?h8
    by (simp add: mock_defs is_last_def more_pages_def)
  have c: ?c
    by (rule GetRecords_three_pages [where n = 0 and fq = Fqdn_dot and tr = "[]" and n' = 0
          and tr' = "[]", OF h1 h2 h3 h4 h5 h6 h7 h8])
  show ?thesis
    by (rule conjI [OF h1 conjI [OF h2 conjI [OF h3 conjI [OF h4 conjI [OF h5 conjI [OF h6
          conjI [OF h7 conjI [OF h8 c]]]]]]]])
qed

end
